theory Spec2Isabelle
  imports Complex_Main
begin

section \<open>Tensors\<close>

text \<open>
  A tensor is its shape and its elements in row-major order, as a contiguous torch
  tensor stores them. The element type is a parameter: it stands for the values of the
  tensor's dtype. No law of arithmetic is assumed of it: \<open>0\<close> and \<open>+\<close> are the dtype's
  zero and its (rounding) addition, and the elements of \<^verbatim>\<open>torch.linspace\<close> are given by
  the dtype (\<open>numerics\<close> below). All tensors of a run have one dtype, so the source's
  \<^verbatim>\<open>.to(img.dtype)\<close> and its \<^verbatim>\<open>device=\<close>, \<^verbatim>\<open>dtype=\<close> keyword arguments leave a
  modelled tensor as it is.
\<close>

record 'a tensor =
  shape :: "nat list"
  data :: "'a list"

definition ndim :: "'a tensor \<Rightarrow> nat" where
  "ndim t = length (shape t)"

definition numel :: "nat list \<Rightarrow> nat" where
  "numel s = prod_list s"

text \<open>Every tensor torch builds has as many elements as its shape says.\<close>

definition valid_tensor :: "'a tensor \<Rightarrow> bool" where
  "valid_tensor t \<longleftrightarrow> length (data t) = numel (shape t)"

text \<open>
  \<open>ravel s idx\<close> is the row-major offset of the multi-index \<open>idx\<close> in a tensor of shape
  \<open>s\<close>; \<open>unravel s k\<close> is the multi-index of offset \<open>k\<close>.
\<close>

fun ravel :: "nat list \<Rightarrow> nat list \<Rightarrow> nat" where
  "ravel (d # ds) (i # idx) = i * numel ds + ravel ds idx"
| "ravel _ _ = 0"

fun unravel :: "nat list \<Rightarrow> nat \<Rightarrow> nat list" where
  "unravel [] k = []"
| "unravel (d # ds) k = (k div numel ds) # unravel ds (k mod numel ds)"

text \<open>\<open>item t idx\<close> reads \<^verbatim>\<open>t[idx]\<close>; it is used at indices inside the shape only.\<close>

definition item :: "'a tensor \<Rightarrow> nat list \<Rightarrow> 'a" where
  "item t idx = data t ! ravel (shape t) idx"

text \<open>The tensor of shape \<open>s\<close> whose element at \<open>idx\<close> is \<open>f idx\<close>.\<close>

definition tabulate :: "nat list \<Rightarrow> (nat list \<Rightarrow> 'a) \<Rightarrow> 'a tensor" where
  "tabulate s f = \<lparr>shape = s, data = map (\<lambda>k. f (unravel s k)) [0..<numel s]\<rparr>"

text \<open>\<^verbatim>\<open>t.reshape(s)\<close> of a contiguous tensor keeps the elements and their order.\<close>

definition reshape :: "nat list \<Rightarrow> 'a tensor \<Rightarrow> 'a tensor" where
  "reshape s t = t\<lparr>shape := s\<rparr>"

section \<open>Exceptions\<close>

text \<open>
  The sub-layers of \<^verbatim>\<open>comfy/ldm/flux/layers.py\<close> and the \<^verbatim>\<open>operations\<close> namespace
  are outside the modelled file. Each place where the file constructs or calls one of
  them is named by a \<open>callee\<close>; an exception that leaves such code is \<open>Raised\<close> at that
  place.
\<close>

datatype callee =
    Pe_embedder
  | Img_in
  | Time_in
  | Vector_in
  | Guidance_in
  | Txt_in
  | Double_blocks nat
  | Single_blocks nat
  | Final_layer
  | Timestep_embedding

datatype error =
    ValueError string
  | ZeroDivisionError
  | AttributeError
  | IndexError
  | RuntimeError
  | EinopsError
  | Raised callee

definition or_raise :: "'b option \<Rightarrow> error \<Rightarrow> error + 'b" where
  "or_raise r e = (case r of None \<Rightarrow> Inl e | Some v \<Rightarrow> Inr v)"

definition bind_e :: "error + 'b \<Rightarrow> ('b \<Rightarrow> error + 'c) \<Rightarrow> error + 'c" where
  "bind_e r f = (case r of Inl e \<Rightarrow> Inl e | Inr v \<Rightarrow> f v)"

section \<open>The configuration and the model object\<close>

record flux_params =
  in_channels :: int
  vec_in_dim :: int
  context_in_dim :: int
  hidden_size :: int
  mlp_ratio :: real
  num_heads :: int
  depth :: int
  depth_single_blocks :: int
  axes_dim :: "int list"
  theta :: int
  qkv_bias :: bool
  guidance_embed :: bool

text \<open>
  A constructed sub-layer is the function its \<^verbatim>\<open>forward\<close> computes; \<open>None\<close> is an
  exception leaving it. A double-stream block takes \<open>img\<close>, \<open>txt\<close>, \<open>vec\<close>, \<open>pe\<close> and
  returns the pair \<open>(img, txt)\<close>; a single-stream block takes \<open>x\<close>, \<open>vec\<close>, \<open>pe\<close>; the
  last layer takes \<open>x\<close>, \<open>vec\<close>.
\<close>

type_synonym 'a module1 = "'a tensor \<Rightarrow> 'a tensor option"
type_synonym 'a double_block =
  "'a tensor \<Rightarrow> 'a tensor \<Rightarrow> 'a tensor \<Rightarrow> 'a tensor \<Rightarrow> ('a tensor \<times> 'a tensor) option"
type_synonym 'a single_block = "'a tensor \<Rightarrow> 'a tensor \<Rightarrow> 'a tensor \<Rightarrow> 'a tensor option"
type_synonym 'a last_layer = "'a tensor \<Rightarrow> 'a tensor \<Rightarrow> 'a tensor option"

text \<open>
  The attributes of a \<^verbatim>\<open>Flux\<close> object. \<open>self_in_channels\<close>, \<open>self_hidden_size\<close> and
  \<open>self_num_heads\<close> are \<^verbatim>\<open>self.in_channels\<close>, \<^verbatim>\<open>self.hidden_size\<close> and
  \<^verbatim>\<open>self.num_heads\<close> (the plain names are the fields of \<open>flux_params\<close>).
\<close>

record 'a flux =
  dtype :: "string option"
  params :: flux_params
  self_in_channels :: int
  out_channels :: int
  self_hidden_size :: int
  self_num_heads :: int
  pe_embedder :: "'a module1"
  img_in :: "'a module1"
  time_in :: "'a module1"
  vector_in :: "'a module1"
  guidance_in :: "'a module1"
  txt_in :: "'a module1"
  double_blocks :: "'a double_block list"
  single_blocks :: "'a single_block list"
  final_layer :: "'a last_layer"

text \<open>
  The names the file imports, as parameters. A class is the function from the place
  where the instance is bound (each instance has parameters of its own) and its
  constructor arguments to the constructed sub-layer, \<open>None\<close> when the constructor
  raises. The arguments are in the order of the call in \<^verbatim>\<open>Flux.__init__\<close>;
  \<open>dtype\<close> and \<open>device\<close> are passed on as given (\<open>None\<close> when absent). The \<open>bias\<close> of
  \<open>Linear\<close> is \<open>None\<close> where the call leaves it out.
\<close>

record 'a operations =
  Linear :: "callee \<Rightarrow> int \<Rightarrow> int \<Rightarrow> bool option \<Rightarrow> string option \<Rightarrow> string option
    \<Rightarrow> 'a module1 option"

record 'a layers =
  DoubleStreamBlock :: "callee \<Rightarrow> int \<Rightarrow> int \<Rightarrow> real \<Rightarrow> bool \<Rightarrow> string option \<Rightarrow> string option
    \<Rightarrow> 'a operations \<Rightarrow> 'a double_block option"
  EmbedND :: "callee \<Rightarrow> int \<Rightarrow> int \<Rightarrow> int list \<Rightarrow> 'a module1 option"
  LastLayer :: "callee \<Rightarrow> int \<Rightarrow> int \<Rightarrow> int \<Rightarrow> string option \<Rightarrow> string option
    \<Rightarrow> 'a operations \<Rightarrow> 'a last_layer option"
  MLPEmbedder :: "callee \<Rightarrow> int \<Rightarrow> int \<Rightarrow> string option \<Rightarrow> string option
    \<Rightarrow> 'a operations \<Rightarrow> 'a module1 option"
  SingleStreamBlock :: "callee \<Rightarrow> int \<Rightarrow> int \<Rightarrow> real \<Rightarrow> string option \<Rightarrow> string option
    \<Rightarrow> 'a operations \<Rightarrow> 'a single_block option"
  timestep_embedding :: "'a tensor \<Rightarrow> nat \<Rightarrow> 'a tensor option"

text \<open>\<^verbatim>\<open>nn.Identity()\<close> returns its argument.\<close>

definition Identity :: "'a module1" where
  "Identity x = Some x"

section \<open>\<^verbatim>\<open>Flux.__init__\<close>\<close>

text \<open>
  \<^verbatim>\<open>[Block(...) for _ in range(n)]\<close>: the instances are constructed in order, and the
  first constructor that raises ends the comprehension. \<^verbatim>\<open>range\<close> of a negative
  number is empty.
\<close>

definition range_py :: "int \<Rightarrow> nat list" where
  "range_py n = [0..<nat n]"

primrec module_list :: "(nat \<Rightarrow> 'b option) \<Rightarrow> (nat \<Rightarrow> callee) \<Rightarrow> nat list \<Rightarrow> error + 'b list" where
  "module_list mk place [] = Inr []"
| "module_list mk place (i # rest) =
     bind_e (or_raise (mk i) (Raised (place i))) (\<lambda>b.
     bind_e (module_list mk place rest) (\<lambda>bs. Inr (b # bs)))"

definition flux_init ::
  "'a layers \<Rightarrow> string option \<Rightarrow> string option \<Rightarrow> string option \<Rightarrow> 'a operations option
    \<Rightarrow> flux_params \<Rightarrow> error + 'a flux" where
  "flux_init L image_model dtype' device operations' p =
    (if num_heads p = 0 then Inl ZeroDivisionError
     else if hidden_size p mod num_heads p \<noteq> 0 then
       Inl (ValueError
         ''Hidden size {params.hidden_size} must be divisible by num_heads {params.num_heads}'')
     else
       let pe_dim = hidden_size p div num_heads p in
       if sum_list (axes_dim p) \<noteq> pe_dim then
         Inl (ValueError ''Got {params.axes_dim} but expected positional dim {pe_dim}'')
       else
         bind_e (or_raise (EmbedND L Pe_embedder pe_dim (theta p) (axes_dim p))
           (Raised Pe_embedder)) (\<lambda>pe_embedder'.
         bind_e (or_raise operations' AttributeError) (\<lambda>ops.
         bind_e (or_raise (Linear ops Img_in (in_channels p) (hidden_size p) (Some True)
           dtype' device) (Raised Img_in)) (\<lambda>img_in'.
         bind_e (or_raise (MLPEmbedder L Time_in 256 (hidden_size p) dtype' device ops)
           (Raised Time_in)) (\<lambda>time_in'.
         bind_e (or_raise (MLPEmbedder L Vector_in (vec_in_dim p) (hidden_size p) dtype' device ops)
           (Raised Vector_in)) (\<lambda>vector_in'.
         bind_e (if guidance_embed p then
             or_raise (MLPEmbedder L Guidance_in 256 (hidden_size p) dtype' device ops)
               (Raised Guidance_in)
           else Inr Identity) (\<lambda>guidance_in'.
         bind_e (or_raise (Linear ops Txt_in (context_in_dim p) (hidden_size p) None
           dtype' device) (Raised Txt_in)) (\<lambda>txt_in'.
         bind_e (module_list
           (\<lambda>i. DoubleStreamBlock L (Double_blocks i) (hidden_size p) (num_heads p)
             (mlp_ratio p) (qkv_bias p) dtype' device ops)
           Double_blocks (range_py (depth p))) (\<lambda>double_blocks'.
         bind_e (module_list
           (\<lambda>i. SingleStreamBlock L (Single_blocks i) (hidden_size p) (num_heads p)
             (mlp_ratio p) dtype' device ops)
           Single_blocks (range_py (depth_single_blocks p))) (\<lambda>single_blocks'.
         bind_e (or_raise (LastLayer L Final_layer (hidden_size p) 1 (in_channels p)
           dtype' device ops) (Raised Final_layer)) (\<lambda>final_layer'.
         Inr \<lparr>dtype = dtype', params = p,
           self_in_channels = in_channels p, out_channels = in_channels p,
           self_hidden_size = hidden_size p, self_num_heads = num_heads p,
           pe_embedder = pe_embedder', img_in = img_in', time_in = time_in',
           vector_in = vector_in', guidance_in = guidance_in', txt_in = txt_in',
           double_blocks = double_blocks', single_blocks = single_blocks',
           final_layer = final_layer'\<rparr>)))))))))))"

section \<open>The tensor operations the file uses\<close>

text \<open>\<^verbatim>\<open>torch.zeros(s)\<close>, and a tensor filled with one value.\<close>

definition full :: "nat list \<Rightarrow> 'a \<Rightarrow> 'a tensor" where
  "full s c = \<lparr>shape = s, data = replicate (numel s) c\<rparr>"

definition torch_zeros :: "nat list \<Rightarrow> 'a::zero tensor" where
  "torch_zeros s = full s 0"

text \<open>
  \<^verbatim>\<open>torch.linspace(start, end, steps, device=x.device, dtype=x.dtype)\<close> is a 1-D tensor of
  \<open>steps\<close> elements. Its elements are computed by torch in the dtype, with rounding, so
  they are a parameter: \<open>linspace_at N start end steps i\<close> is element \<open>i\<close>.
\<close>

record 'a numerics =
  linspace_at :: "int \<Rightarrow> int \<Rightarrow> nat \<Rightarrow> nat \<Rightarrow> 'a"

definition torch_linspace :: "'a numerics \<Rightarrow> int \<Rightarrow> int \<Rightarrow> nat \<Rightarrow> 'a tensor" where
  "torch_linspace N start stop steps =
     \<lparr>shape = [steps], data = map (linspace_at N start stop steps) [0..<steps]\<rparr>"

text \<open>
  Broadcasting: shapes are aligned at their last dimension; two sizes agree when they
  are equal or one of them is 1. \<open>bidx s idx\<close> is the index into an operand of shape
  \<open>s\<close> for the index \<open>idx\<close> into the broadcast result.
\<close>

fun broadcast_rev :: "nat list \<Rightarrow> nat list \<Rightarrow> nat list option" where
  "broadcast_rev [] ys = Some ys"
| "broadcast_rev xs [] = Some xs"
| "broadcast_rev (x # xs) (y # ys) =
     (if x = y \<or> y = 1 then map_option ((#) x) (broadcast_rev xs ys)
      else if x = 1 then map_option ((#) y) (broadcast_rev xs ys)
      else None)"

definition broadcast_shapes :: "nat list \<Rightarrow> nat list \<Rightarrow> nat list option" where
  "broadcast_shapes a b = map_option rev (broadcast_rev (rev a) (rev b))"

definition bidx :: "nat list \<Rightarrow> nat list \<Rightarrow> nat list" where
  "bidx s idx = map2 (\<lambda>d i. if d = 1 then 0 else i) s (drop (length idx - length s) idx)"

text \<open>\<^verbatim>\<open>a + b\<close> on tensors; shapes that do not broadcast raise RuntimeError.\<close>

definition torch_add :: "'a::plus tensor \<Rightarrow> 'a tensor \<Rightarrow> error + 'a tensor" where
  "torch_add a b =
     (case broadcast_shapes (shape a) (shape b) of
        None \<Rightarrow> Inl RuntimeError
      | Some s \<Rightarrow>
          Inr (tabulate s (\<lambda>idx. item a (bidx (shape a) idx) + item b (bidx (shape b) idx))))"

text \<open>
  \<^verbatim>\<open>torch.cat((a, b), dim=d)\<close> for two tensors of the same rank: the sizes must agree
  outside dimension \<open>d\<close>. (torch also accepts a 1-D empty tensor beside a tensor of
  another rank; that legacy case is outside the model and reported as RuntimeError.
  Which of RuntimeError and IndexError a failing call raises is not used below.)
\<close>

definition torch_cat :: "'a tensor \<Rightarrow> 'a tensor \<Rightarrow> nat \<Rightarrow> error + 'a tensor" where
  "torch_cat a b d =
     (if ndim a \<noteq> ndim b then Inl RuntimeError
      else if ndim a \<le> d then Inl IndexError
      else if (shape a)[d := 0] \<noteq> (shape b)[d := 0] then Inl RuntimeError
      else Inr (tabulate ((shape a)[d := shape a ! d + shape b ! d])
        (\<lambda>idx. if idx ! d < shape a ! d then item a idx
               else item b (idx[d := idx ! d - shape a ! d]))))"

text \<open>\<^verbatim>\<open>t.shape[i]\<close> for \<open>i \<ge> 0\<close>.\<close>

definition shape_at :: "'a tensor \<Rightarrow> nat \<Rightarrow> error + nat" where
  "shape_at t i = (if i < ndim t then Inr (shape t ! i) else Inl IndexError)"

text \<open>
  \<^verbatim>\<open>img[:, n:, ...]\<close>: the tensor needs two dimensions; a start beyond the end gives a
  dimension of size 0.
\<close>

definition slice_from1 :: "'a tensor \<Rightarrow> nat \<Rightarrow> error + 'a tensor" where
  "slice_from1 img n =
     (if ndim img < 2 then Inl IndexError
      else Inr (tabulate ((shape img)[1 := shape img ! 1 - n])
        (\<lambda>idx. item img (idx[1 := idx ! 1 + n]))))"

text \<open>\<^verbatim>\<open>t[..., k]\<close> and the assignment \<^verbatim>\<open>t[..., k] = v\<close>, where \<open>v\<close> is broadcast to the slice.\<close>

definition select_last :: "'a tensor \<Rightarrow> nat \<Rightarrow> error + 'a tensor" where
  "select_last t k =
     (if shape t = [] then Inl IndexError
      else if last (shape t) \<le> k then Inl IndexError
      else Inr (tabulate (butlast (shape t)) (\<lambda>idx. item t (idx @ [k]))))"

definition setitem_last :: "'a tensor \<Rightarrow> nat \<Rightarrow> 'a tensor \<Rightarrow> error + 'a tensor" where
  "setitem_last t k v =
     (if shape t = [] then Inl IndexError
      else if last (shape t) \<le> k then Inl IndexError
      else if broadcast_shapes (butlast (shape t)) (shape v) \<noteq> Some (butlast (shape t))
        then Inl RuntimeError
      else Inr (tabulate (shape t)
        (\<lambda>idx. if last idx = k then item v (bidx (shape v) (butlast idx)) else item t idx)))"

text \<open>
  \<^verbatim>\<open>v[:, None]\<close> is \<open>unsqueeze 1 v\<close> and \<^verbatim>\<open>v[None, :]\<close> is \<open>unsqueeze 0 v\<close>, for the 1-D
  tensor \<open>v\<close> that \<open>torch_linspace\<close> returns.
\<close>

definition unsqueeze :: "nat \<Rightarrow> 'a tensor \<Rightarrow> 'a tensor" where
  "unsqueeze d t = reshape (take d (shape t) @ [1] @ drop d (shape t)) t"

text \<open>
  \<^verbatim>\<open>t.permute(dims)\<close>: dimension \<open>k\<close> of the result is dimension \<open>dims ! k\<close> of \<open>t\<close>.
\<close>

fun index_of :: "nat list \<Rightarrow> nat \<Rightarrow> nat" where
  "index_of [] a = 0"
| "index_of (d # ds) a = (if d = a then 0 else Suc (index_of ds a))"

definition permute :: "nat list \<Rightarrow> 'a tensor \<Rightarrow> 'a tensor" where
  "permute dims t =
     tabulate (map (\<lambda>d. shape t ! d) dims)
       (\<lambda>idx. item t (map (\<lambda>a. idx ! index_of dims a) [0..<length dims]))"

text \<open>
  The three einops calls of \<^verbatim>\<open>Flux.forward\<close>. einops reshapes to the elementary axes,
  permutes them and reshapes to the result.
  \<^item> \<open>rearrange_in\<close> is
    \<^verbatim>\<open>rearrange(x, "b c (h ph) (w pw) -> b (h w) (c ph pw)", ph=2, pw=2)\<close>;
  \<^item> \<open>rearrange_out out h w\<close> is
    \<^verbatim>\<open>rearrange(out, "b (h w) (c ph pw) -> b c (h ph) (w pw)", h=h, w=w, ph=2, pw=2)\<close>;
  \<^item> \<open>repeat_ids t b\<close> is \<^verbatim>\<open>repeat(t, "h w c -> b (h w) c", b=b)\<close>.
  A tensor of the wrong rank, or a dimension that does not split, raises EinopsError.
\<close>

definition rearrange_in :: "'a tensor \<Rightarrow> error + 'a tensor" where
  "rearrange_in x =
     (case shape x of
        [b, c, hh, ww] \<Rightarrow>
          if hh mod 2 \<noteq> 0 \<or> ww mod 2 \<noteq> 0 then Inl EinopsError
          else
            let h = hh div 2; w = ww div 2 in
            Inr (reshape [b, h * w, c * 2 * 2]
              (permute [0, 2, 4, 1, 3, 5] (reshape [b, c, h, 2, w, 2] x)))
      | _ \<Rightarrow> Inl EinopsError)"

definition rearrange_out :: "'a tensor \<Rightarrow> nat \<Rightarrow> nat \<Rightarrow> error + 'a tensor" where
  "rearrange_out out h w =
     (case shape out of
        [b, hw, cpp] \<Rightarrow>
          if hw \<noteq> h * w \<or> cpp mod (2 * 2) \<noteq> 0 then Inl EinopsError
          else
            let c = cpp div (2 * 2) in
            Inr (reshape [b, c, h * 2, w * 2]
              (permute [0, 3, 1, 4, 2, 5] (reshape [b, h, w, c, 2, 2] out)))
      | _ \<Rightarrow> Inl EinopsError)"

definition repeat_ids :: "'a tensor \<Rightarrow> nat \<Rightarrow> error + 'a tensor" where
  "repeat_ids t b =
     (case shape t of
        [h, w, c] \<Rightarrow> Inr (reshape [b, h * w, c] (tabulate [b, h, w, c] (\<lambda>idx. item t (tl idx))))
      | _ \<Rightarrow> Inl EinopsError)"

section \<open>Calls of sub-layers\<close>

text \<open>
  A call of a sub-layer is an effect of \<^verbatim>\<open>forward_orig\<close>: a run yields the calls it
  made, in program order and each with its argument tensors, beside its outcome (the
  returned value, or the exception that ended it).
\<close>

datatype 'a event = Call callee "'a tensor list"

type_synonym ('a, 'r) run = "'a event list \<times> (error + 'r)"

definition ret :: "'r \<Rightarrow> ('a, 'r) run" where
  "ret v = ([], Inr v)"

definition raise :: "error \<Rightarrow> ('a, 'r) run" where
  "raise e = ([], Inl e)"

definition lift :: "error + 'r \<Rightarrow> ('a, 'r) run" where
  "lift r = ([], r)"

definition and_then :: "('a, 'r) run \<Rightarrow> ('r \<Rightarrow> ('a, 's) run) \<Rightarrow> ('a, 's) run" where
  "and_then m f =
     (case snd m of
        Inl e \<Rightarrow> (fst m, Inl e)
      | Inr v \<Rightarrow> (fst m @ fst (f v), snd (f v)))"

definition call :: "callee \<Rightarrow> 'a tensor list \<Rightarrow> 'r option \<Rightarrow> ('a, 'r) run" where
  "call c args r = ([Call c args], or_raise r (Raised c))"

section \<open>\<^verbatim>\<open>Flux.forward_orig\<close>\<close>

text \<open>
  \<^verbatim>\<open>for block in self.double_blocks: img, txt = block(img=img, txt=txt, vec=vec, pe=pe)\<close>;
  the first argument counts the blocks already run.
\<close>

fun run_double_blocks ::
  "nat \<Rightarrow> 'a double_block list \<Rightarrow> 'a tensor \<Rightarrow> 'a tensor \<Rightarrow> 'a tensor \<Rightarrow> 'a tensor
    \<Rightarrow> ('a, 'a tensor \<times> 'a tensor) run" where
  "run_double_blocks i [] img txt vec pe = ret (img, txt)"
| "run_double_blocks i (block # blocks) img txt vec pe =
     and_then (call (Double_blocks i) [img, txt, vec, pe] (block img txt vec pe))
       (\<lambda>(img, txt). run_double_blocks (Suc i) blocks img txt vec pe)"

text \<open>\<^verbatim>\<open>for block in self.single_blocks: img = block(img, vec=vec, pe=pe)\<close>.\<close>

fun run_single_blocks ::
  "nat \<Rightarrow> 'a single_block list \<Rightarrow> 'a tensor \<Rightarrow> 'a tensor \<Rightarrow> 'a tensor \<Rightarrow> ('a, 'a tensor) run" where
  "run_single_blocks i [] img vec pe = ret img"
| "run_single_blocks i (block # blocks) img vec pe =
     and_then (call (Single_blocks i) [img, vec, pe] (block img vec pe))
       (\<lambda>img. run_single_blocks (Suc i) blocks img vec pe)"

text \<open>
  The conditioning vector: lines 102 to 108 of the source. \<open>guidance\<close> is \<open>None\<close> for
  Python's \<^verbatim>\<open>None\<close>.
\<close>

definition conditioning ::
  "'a::plus layers \<Rightarrow> 'a flux \<Rightarrow> 'a tensor \<Rightarrow> 'a tensor \<Rightarrow> 'a tensor option \<Rightarrow> ('a, 'a tensor) run" where
  "conditioning L m timesteps y guidance =
     and_then (call Timestep_embedding [timesteps] (timestep_embedding L timesteps 256)) (\<lambda>t_emb.
     and_then (call Time_in [t_emb] (time_in m t_emb)) (\<lambda>vec.
     and_then
       (if guidance_embed (params m) then
          (case guidance of
             None \<Rightarrow> raise (ValueError
               ''Didn't get guidance strength for guidance distilled model.'')
           | Some g \<Rightarrow>
               and_then (call Timestep_embedding [g] (timestep_embedding L g 256)) (\<lambda>g_emb.
               and_then (call Guidance_in [g_emb] (guidance_in m g_emb)) (\<lambda>g_vec.
               lift (torch_add vec g_vec))))
        else ret vec) (\<lambda>vec.
     and_then (call Vector_in [y] (vector_in m y)) (\<lambda>y_vec.
     lift (torch_add vec y_vec)))))"

definition forward_orig ::
  "'a::plus layers \<Rightarrow> 'a flux \<Rightarrow> 'a tensor \<Rightarrow> 'a tensor \<Rightarrow> 'a tensor \<Rightarrow> 'a tensor \<Rightarrow> 'a tensor
    \<Rightarrow> 'a tensor \<Rightarrow> 'a tensor option \<Rightarrow> ('a, 'a tensor) run" where
  "forward_orig L m img img_ids txt txt_ids timesteps y guidance =
     (if ndim img \<noteq> 3 \<or> ndim txt \<noteq> 3 then
        raise (ValueError ''Input img and txt tensors must have 3 dimensions.'')
      else
        and_then (call Img_in [img] (img_in m img)) (\<lambda>img.
        and_then (conditioning L m timesteps y guidance) (\<lambda>vec.
        and_then (call Txt_in [txt] (txt_in m txt)) (\<lambda>txt.
        and_then (lift (torch_cat txt_ids img_ids 1)) (\<lambda>ids.
        and_then (call Pe_embedder [ids] (pe_embedder m ids)) (\<lambda>pe.
        and_then (run_double_blocks 0 (double_blocks m) img txt vec pe) (\<lambda>(img, txt).
        and_then (lift (torch_cat txt img 1)) (\<lambda>img.
        and_then (run_single_blocks 0 (single_blocks m) img vec pe) (\<lambda>img.
        and_then (lift (shape_at txt 1)) (\<lambda>n.
        and_then (lift (slice_from1 img n)) (\<lambda>img.
        call Final_layer [img, vec] (final_layer m img vec))))))))))))"

section \<open>\<^verbatim>\<open>Flux.forward\<close>\<close>

text \<open>Lines 129 to 134: the positional ids of the image patches.\<close>

definition make_img_ids ::
  "'a numerics \<Rightarrow> nat \<Rightarrow> nat \<Rightarrow> nat \<Rightarrow> error + 'a::{zero,plus} tensor" where
  "make_img_ids N bs h_len w_len =
     (let img_ids = torch_zeros [h_len, w_len, 3] in
      bind_e (select_last img_ids 1) (\<lambda>ch1.
      bind_e (torch_add ch1
        (unsqueeze 1 (torch_linspace N 0 (int h_len - 1) h_len))) (\<lambda>rows.
      bind_e (setitem_last img_ids 1 rows) (\<lambda>img_ids.
      bind_e (select_last img_ids 2) (\<lambda>ch2.
      bind_e (torch_add ch2
        (unsqueeze 0 (torch_linspace N 0 (int w_len - 1) w_len))) (\<lambda>cols.
      bind_e (setitem_last img_ids 2 cols) (\<lambda>img_ids.
      repeat_ids img_ids bs)))))))"

text \<open>\<open>N\<close> is what \<^verbatim>\<open>x.dtype\<close> and \<^verbatim>\<open>x.device\<close> determine.\<close>

definition forward ::
  "'a numerics \<Rightarrow> 'a::{zero,plus} layers \<Rightarrow> 'a flux \<Rightarrow> 'a tensor \<Rightarrow> 'a tensor \<Rightarrow> 'a tensor
    \<Rightarrow> 'a tensor \<Rightarrow> 'a tensor option \<Rightarrow> ('a, 'a tensor) run" where
  "forward N L m x timestep context y guidance =
     (case shape x of
        [bs, c, h, w] \<Rightarrow>
          and_then (lift (rearrange_in x)) (\<lambda>img.
          let h_len = h div 2; w_len = w div 2 in
          and_then (lift (make_img_ids N bs h_len w_len)) (\<lambda>img_ids.
          and_then (lift (shape_at context 1)) (\<lambda>n.
          let txt_ids = torch_zeros [bs, n, 3] in
          and_then (forward_orig L m img img_ids context txt_ids timestep y guidance) (\<lambda>out.
          lift (rearrange_out out h_len w_len)))))
      | _ \<Rightarrow> raise (ValueError ''not enough values to unpack / too many values to unpack''))"

section \<open>A small model for concrete runs\<close>

text \<open>
  Stand-ins for the imported classes, with the shapes of the real ones: a projection
  from width \<open>i\<close> to width \<open>o\<close> accepts tensors whose last dimension is \<open>i\<close>; the
  blocks keep the shapes of their streams; the last layer returns
  \<open>(N, T, patch_size ** 2 * out_channels)\<close>. The values are constants: 1 from
  \<open>time_in\<close>, 2 from \<open>guidance_in\<close>, 4 from \<open>vector_in\<close>, 0 elsewhere.
\<close>

definition toy_projection :: "nat \<Rightarrow> nat \<Rightarrow> 'a \<Rightarrow> 'a module1" where
  "toy_projection i o' c x =
     (if shape x \<noteq> [] \<and> last (shape x) = i then Some (full (butlast (shape x) @ [o']) c)
      else None)"

definition toy_operations :: "real operations" where
  "toy_operations =
     \<lparr>Linear = (\<lambda>place i o' bias dt dev.
        if i < 0 \<or> o' < 0 then None else Some (toy_projection (nat i) (nat o') 0))\<rparr>"

definition toy_layers :: "real layers" where
  "toy_layers =
     \<lparr>DoubleStreamBlock = (\<lambda>place hidden heads ratio bias dt dev ops.
        Some (\<lambda>img txt vec pe. Some (img, txt))),
      EmbedND = (\<lambda>place dim th axes. Some (\<lambda>ids. Some ids)),
      LastLayer = (\<lambda>place hidden patch out dt dev ops.
        Some (\<lambda>x vec. if ndim x = 3
          then Some (full [shape x ! 0, shape x ! 1, nat (patch * patch * out)] 0) else None)),
      MLPEmbedder = (\<lambda>place i hidden dt dev ops.
        if i < 0 \<or> hidden < 0 then None
        else Some (toy_projection (nat i) (nat hidden)
          (if place = Time_in then 1 else if place = Guidance_in then 2 else 4))),
      SingleStreamBlock = (\<lambda>place hidden heads ratio dt dev ops.
        Some (\<lambda>x vec pe. Some x)),
      timestep_embedding = (\<lambda>t dim. if ndim t = 1 then Some (full [shape t ! 0, dim] 0) else None)\<rparr>"

definition toy_params :: flux_params where
  "toy_params =
     \<lparr>in_channels = 4, vec_in_dim = 3, context_in_dim = 5, hidden_size = 8, mlp_ratio = 4,
      num_heads = 2, depth = 2, depth_single_blocks = 1, axes_dim = [2, 2], theta = 10000,
      qkv_bias = True, guidance_embed = True\<rparr>"

definition toy_flux :: "real flux" where
  "toy_flux =
     \<lparr>dtype = None, params = toy_params,
      self_in_channels = 4, out_channels = 4, self_hidden_size = 8, self_num_heads = 2,
      pe_embedder = (\<lambda>ids. Some ids),
      img_in = toy_projection 4 8 0,
      time_in = toy_projection 256 8 1,
      vector_in = toy_projection 3 8 4,
      guidance_in = toy_projection 256 8 2,
      txt_in = toy_projection 5 8 0,
      double_blocks = [\<lambda>img txt vec pe. Some (img, txt), \<lambda>img txt vec pe. Some (img, txt)],
      single_blocks = [\<lambda>x vec pe. Some x],
      final_layer = (\<lambda>x vec. if ndim x = 3
          then Some (full [shape x ! 0, shape x ! 1, 4] 0) else None)\<rparr>"

text \<open>
  Inputs of \<^verbatim>\<open>forward_orig\<close> for the small model: one sample, two image tokens of
  width 4, three text tokens of width 5.
\<close>

definition toy_img :: "real tensor" where
  "toy_img = full [1, 2, 4] 0"

definition toy_txt :: "real tensor" where
  "toy_txt = full [1, 3, 5] 0"

definition toy_img_ids :: "real tensor" where
  "toy_img_ids = full [1, 2, 3] 0"

definition toy_txt_ids :: "real tensor" where
  "toy_txt_ids = full [1, 3, 3] 0"

definition toy_timesteps :: "real tensor" where
  "toy_timesteps = full [1] 0"

definition toy_y :: "real tensor" where
  "toy_y = full [1, 3] 0"

definition toy_guidance :: "real tensor" where
  "toy_guidance = full [1] 0"

text \<open>
  An input of \<^verbatim>\<open>forward\<close>: one sample with one channel, 2 by 2, so one patch of width
  4; and one with four channels.
\<close>

definition toy_x :: "real tensor" where
  "toy_x = \<lparr>shape = [1, 1, 2, 2], data = [1, 2, 3, 4]\<rparr>"

definition toy_x4 :: "real tensor" where
  "toy_x4 = full [1, 4, 2, 2] 0"

text \<open>
  A latent of one channel, 4 by 4: four patches of width 4. And the small model with an
  image projection that accepts every width.
\<close>

definition toy_latent :: "real tensor" where
  "toy_latent = full [1, 1, 4, 4] 0"

definition any_width :: "real module1" where
  "any_width x = Some (full (butlast (shape x) @ [8]) 0)"



text \<open>
  The small model with blocks that leave a mark: a block adds a constant to every
  element of a stream (1 and 10, then 2 and 20, to \<open>img\<close> and \<open>txt\<close>; 100 in the
  single-stream block), and the final layer returns the first element it receives in
  every place.
\<close>

definition shift :: "'a::plus \<Rightarrow> 'a tensor \<Rightarrow> 'a tensor" where
  "shift c t = \<lparr>shape = shape t, data = map (\<lambda>v. v + c) (data t)\<rparr>"

definition marking_flux :: "real flux" where
  "marking_flux = toy_flux
     \<lparr>double_blocks :=
        [\<lambda>img txt vec pe. Some (shift 1 img, shift 10 txt),
         \<lambda>img txt vec pe. Some (shift 2 img, shift 20 txt)],
      single_blocks := [\<lambda>x vec pe. Some (shift 100 x)],
      final_layer := (\<lambda>x vec. if ndim x = 3
          then Some (full [shape x ! 0, shape x ! 1, 4] (item x [0, 0, 0])) else None)\<rparr>"

text \<open>
  Three text tokens holding 30 before two image tokens holding 3: what the marked
  streams of the small inputs concatenate to.
\<close>

definition marking_cat :: "real tensor" where
  "marking_cat = tabulate [1, 5, 8] (\<lambda>idx. if idx ! 1 < 3 then 30 else 3)"
section \<open>What the claims speak of\<close>

text \<open>The sub-layer a call names, and the calls of blocks and of the final layer in a run.\<close>

fun callee_of :: "'a event \<Rightarrow> callee" where
  "callee_of (Call c args) = c"

fun is_block :: "callee \<Rightarrow> bool" where
  "is_block (Double_blocks i) = True"
| "is_block (Single_blocks i) = True"
| "is_block Final_layer = True"
| "is_block _ = False"

definition block_calls :: "'a event list \<Rightarrow> callee list" where
  "block_calls tr = filter is_block (map callee_of tr)"


text \<open>
  The stack of double-stream blocks as a function: each block maps the pair
  \<open>(img, txt)\<close> it receives to the pair the next block receives. Likewise the stack of
  single-stream blocks on the concatenated sequence. \<open>None\<close> when a block raises.
\<close>

primrec double_stack ::
  "'a double_block list \<Rightarrow> 'a tensor \<Rightarrow> 'a tensor \<Rightarrow> 'a tensor \<times> 'a tensor
    \<Rightarrow> ('a tensor \<times> 'a tensor) option" where
  "double_stack [] vec pe s = Some s"
| "double_stack (block # blocks) vec pe s =
     Option.bind (block (fst s) (snd s) vec pe) (double_stack blocks vec pe)"

primrec single_stack ::
  "'a single_block list \<Rightarrow> 'a tensor \<Rightarrow> 'a tensor \<Rightarrow> 'a tensor \<Rightarrow> 'a tensor option" where
  "single_stack [] vec pe x = Some x"
| "single_stack (block # blocks) vec pe x =
     Option.bind (block x vec pe) (single_stack blocks vec pe)"

text \<open>
  The conditioning vector in the words of the specification: the timestep embedding
  through \<open>time_in\<close>, plus the guidance embedding through \<open>guidance_in\<close> exactly when
  \<open>guidance_embed\<close> is set, plus \<open>vector_in y\<close>. The sums are taken in the order of the
  source, \<open>(time + guidance) + vector\<close>. \<open>None\<close> when a sub-layer or a sum raises, or
  the guidance is required and absent.
\<close>

definition add_opt :: "'a::plus tensor \<Rightarrow> 'a tensor \<Rightarrow> 'a tensor option" where
  "add_opt a b = (case torch_add a b of Inl e \<Rightarrow> None | Inr s \<Rightarrow> Some s)"

definition conditioning_vector ::
  "'a::plus layers \<Rightarrow> 'a flux \<Rightarrow> 'a tensor \<Rightarrow> 'a tensor \<Rightarrow> 'a tensor option \<Rightarrow> 'a tensor option" where
  "conditioning_vector L m timesteps y guidance =
     Option.bind (Option.bind (timestep_embedding L timesteps 256) (time_in m)) (\<lambda>t_vec.
     Option.bind (vector_in m y) (\<lambda>y_vec.
     if guidance_embed (params m) then
       Option.bind (Option.bind (Option.bind guidance (\<lambda>g. timestep_embedding L g 256))
         (guidance_in m)) (\<lambda>g_vec.
       Option.bind (add_opt t_vec g_vec) (\<lambda>s. add_opt s y_vec))
     else add_opt t_vec y_vec))"

text \<open>
  What the sub-layers do to shapes. A projection (\<^verbatim>\<open>Linear\<close>) and the final layer
  change the last dimension only; a block returns its streams in the shapes it
  received them.
\<close>

definition keeps_tokens :: "'a module1 \<Rightarrow> bool" where
  "keeps_tokens f \<longleftrightarrow>
     (\<forall>x r. f x = Some r \<longrightarrow> ndim r = ndim x \<and> butlast (shape r) = butlast (shape x))"

definition double_keeps_shape :: "'a double_block \<Rightarrow> bool" where
  "double_keeps_shape block \<longleftrightarrow>
     (\<forall>img txt vec pe img' txt'. block img txt vec pe = Some (img', txt') \<longrightarrow>
        shape img' = shape img \<and> shape txt' = shape txt)"

definition single_keeps_shape :: "'a single_block \<Rightarrow> bool" where
  "single_keeps_shape block \<longleftrightarrow>
     (\<forall>x vec pe r. block x vec pe = Some r \<longrightarrow> shape r = shape x)"

definition last_keeps_tokens :: "'a last_layer \<Rightarrow> bool" where
  "last_keeps_tokens f \<longleftrightarrow>
     (\<forall>x vec r. f x vec = Some r \<longrightarrow> ndim r = ndim x \<and> butlast (shape r) = butlast (shape x))"

definition shape_contract :: "'a flux \<Rightarrow> bool" where
  "shape_contract m \<longleftrightarrow>
     keeps_tokens (img_in m)
     \<and> list_all double_keeps_shape (double_blocks m)
     \<and> list_all single_keeps_shape (single_blocks m)
     \<and> last_keeps_tokens (final_layer m)"

text \<open>
  The width of the final layer's result, as the comment at its call says:
  \<open>(N, T, patch_size ** 2 * out_channels)\<close>.
\<close>

definition last_layer_width :: "'a layers \<Rightarrow> bool" where
  "last_layer_width L \<longleftrightarrow>
     (\<forall>place hidden patch out dt dev ops f x vec r.
        LastLayer L place hidden patch out dt dev ops = Some f \<longrightarrow> f x vec = Some r \<longrightarrow>
        shape r \<noteq> [] \<and> last (shape r) = nat (patch * patch * out))"

text \<open>
  The block calls of a run are in the expected order: they are an initial part of the
  expected list, and all of it when the run returns.
\<close>

definition calls_in_order :: "('a, 'r) run \<Rightarrow> callee list \<Rightarrow> bool" where
  "calls_in_order r expected \<longleftrightarrow>
     (\<exists>rest. expected = block_calls (fst r) @ rest \<and> ((\<exists>v. snd r = Inr v) \<longrightarrow> rest = []))"

text \<open>
  The positional ids of the image patches: for every sample, the id of the patch in row
  \<open>i\<close> and column \<open>j\<close> is \<open>(0, 0 + r i, 0 + c j)\<close>, where \<open>r\<close> and \<open>c\<close> are the
  elements of \<^verbatim>\<open>linspace(0, h_len - 1, h_len)\<close> and \<^verbatim>\<open>linspace(0, w_len - 1, w_len)\<close> in
  the dtype; the patches are numbered row by row.
\<close>

definition patch_ids :: "'a numerics \<Rightarrow> nat \<Rightarrow> nat \<Rightarrow> nat \<Rightarrow> 'a::{zero,plus} tensor" where
  "patch_ids N bs h_len w_len =
     reshape [bs, h_len * w_len, 3]
       (tabulate [bs, h_len, w_len, 3]
         (\<lambda>idx. [0, 0 + linspace_at N 0 (int h_len - 1) h_len (idx ! 1),
                  0 + linspace_at N 0 (int w_len - 1) w_len (idx ! 2)] ! (idx ! 3)))"

text \<open>
  The inputs the blocks of a stack receive, in order: the first block receives the
  given streams, each later block what the block before it returned; the list ends
  with the block that raises.
\<close>

primrec double_inputs ::
  "'a double_block list \<Rightarrow> 'a tensor \<Rightarrow> 'a tensor \<Rightarrow> 'a tensor \<times> 'a tensor
    \<Rightarrow> ('a tensor \<times> 'a tensor) list" where
  "double_inputs [] vec pe s = []"
| "double_inputs (block # blocks) vec pe s =
     s # (case block (fst s) (snd s) vec pe of
            None \<Rightarrow> []
          | Some s' \<Rightarrow> double_inputs blocks vec pe s')"

primrec single_inputs ::
  "'a single_block list \<Rightarrow> 'a tensor \<Rightarrow> 'a tensor \<Rightarrow> 'a tensor \<Rightarrow> 'a tensor list" where
  "single_inputs [] vec pe x = []"
| "single_inputs (block # blocks) vec pe x =
     x # (case block x vec pe of
            None \<Rightarrow> []
          | Some x' \<Rightarrow> single_inputs blocks vec pe x')"


text \<open>
  The calls of blocks and of the final layer in a trace, with their arguments; and the
  calls a stack makes on a list of inputs: block \<open>k\<close> on the \<open>k\<close>-th input, with \<open>vec\<close> and
  \<open>pe\<close>.
\<close>

definition block_events :: "'a event list \<Rightarrow> 'a event list" where
  "block_events tr = filter (\<lambda>e. is_block (callee_of e)) tr"

definition double_events ::
  "'a tensor \<Rightarrow> 'a tensor \<Rightarrow> ('a tensor \<times> 'a tensor) list \<Rightarrow> 'a event list" where
  "double_events vec pe ss =
     map (\<lambda>(k, s). Call (Double_blocks k) [fst s, snd s, vec, pe]) (enumerate 0 ss)"

definition single_events :: "'a tensor \<Rightarrow> 'a tensor \<Rightarrow> 'a tensor list \<Rightarrow> 'a event list" where
  "single_events vec pe xs = map (\<lambda>(k, x). Call (Single_blocks k) [x, vec, pe]) (enumerate 0 xs)"

section \<open>The dtype bfloat16\<close>

text \<open>
  A bfloat16 tensor is a tensor of real numbers that are bfloat16 values.
  A bfloat16 value has 8 significant bits; a real number is rounded to the nearest
  one, a tie to the one whose last bit is 0. \<open>exponent_bf16 x\<close> is the exponent of the
  binade of \<open>x\<close>, not below \<open>-126\<close> (zero and the subnormal numbers share the spacing of
  the lowest binade). Overflow to infinity is not modelled: the numbers rounded here
  are far below \<open>2 ^ 128\<close>.
\<close>

definition round_half_even :: "real \<Rightarrow> int" where
  "round_half_even q =
     (let f = \<lfloor>q\<rfloor> in
      if q - of_int f < 1 / 2 then f
      else if 1 / 2 < q - of_int f then f + 1
      else if even f then f else f + 1)"

fun bit_length :: "nat \<Rightarrow> nat" where
  "bit_length n = (if n = 0 then 0 else Suc (bit_length (n div 2)))"

declare bit_length.simps [simp del]

primrec doublings :: "nat \<Rightarrow> real \<Rightarrow> nat" where
  "doublings 0 x = 0"
| "doublings (Suc k) x = (if 1 \<le> x then 0 else Suc (doublings k (2 * x)))"

definition exponent_bf16 :: "real \<Rightarrow> int" where
  "exponent_bf16 x =
     (if 1 \<le> \<bar>x\<bar> then int (bit_length (nat \<lfloor>\<bar>x\<bar>\<rfloor>)) - 1
      else - int (doublings 126 \<bar>x\<bar>))"

definition bfloat16 :: "real \<Rightarrow> real" where
  "bfloat16 x =
     (let ulp = 2 powi (exponent_bf16 x - 7) in of_int (round_half_even (x / ulp)) * ulp)"

text \<open>
  An element of \<^verbatim>\<open>torch.linspace\<close> as its kernel computes it, for a floating dtype
  with rounding \<open>rnd\<close>: one step returns \<open>start\<close>; otherwise \<open>start\<close>, \<open>end\<close> and the step \<open>(end - start) / (steps - 1)\<close>
  are values of the dtype, the first half of the elements is \<open>start + step * i\<close> and
  the second half \<open>end - step * (steps - i - 1)\<close>, every operation rounded.
\<close>

definition linspace_kernel :: "(real \<Rightarrow> real) \<Rightarrow> int \<Rightarrow> int \<Rightarrow> nat \<Rightarrow> nat \<Rightarrow> real" where
  "linspace_kernel rnd start stop steps i =
     (let s = rnd (of_int start); e = rnd (of_int stop) in
      if steps = 1 then s
      else
        let step = rnd (rnd (e - s) / rnd (of_int (int steps - 1))) in
        if i < steps div 2 then rnd (s + rnd (step * rnd (of_nat i)))
        else rnd (e - rnd (step * rnd (of_nat (steps - i - 1)))))"

definition bfloat16_numerics :: "real numerics" where
  "bfloat16_numerics = \<lparr>linspace_at = linspace_kernel bfloat16\<rparr>"


section \<open>Indexing\<close>

lemma numel_Nil [simp]: "numel [] = 1"
  by (simp add: numel_def)

lemma numel_Cons [simp]: "numel (d # ds) = d * numel ds"
  by (simp add: numel_def)

lemma ravel_less: "list_all2 (<) idx s \<Longrightarrow> ravel s idx < numel s"
proof (induction idx s rule: list_all2_induct)
  case Nil
  then show ?case by simp
next
  case (Cons i idx d ds)
  have "i * numel ds + ravel ds idx < i * numel ds + numel ds"
    using Cons.IH by simp
  also have "\<dots> = Suc i * numel ds" by simp
  also have "\<dots> \<le> d * numel ds"
    using Cons.hyps(1) by (intro mult_le_mono1) simp
  finally show ?case by simp
qed

lemma unravel_ravel: "list_all2 (<) idx s \<Longrightarrow> unravel s (ravel s idx) = idx"
proof (induction idx s rule: list_all2_induct)
  case Nil
  then show ?case by simp
next
  case (Cons i idx d ds)
  have "ravel ds idx < numel ds" using Cons.hyps(2) by (rule ravel_less)
  then show ?case using Cons.IH by simp
qed

lemma ravel_unravel: "k < numel s \<Longrightarrow> ravel s (unravel s k) = k"
proof (induction s arbitrary: k)
  case Nil
  then show ?case by simp
next
  case (Cons d ds)
  from Cons.prems have pos: "0 < numel ds" by (cases "numel ds") auto
  then have "k mod numel ds < numel ds" by simp
  then have "ravel ds (unravel ds (k mod numel ds)) = k mod numel ds" by (rule Cons.IH)
  then show ?case by simp
qed

lemma unravel_in_range: "k < numel s \<Longrightarrow> list_all2 (<) (unravel s k) s"
proof (induction s arbitrary: k)
  case Nil
  then show ?case by simp
next
  case (Cons d ds)
  from Cons.prems have pos: "0 < numel ds" by (cases "numel ds") auto
  then have m: "k mod numel ds < numel ds" by simp
  have "k div numel ds < d"
    using Cons.prems pos by (simp add: less_mult_imp_div_less)
  then show ?case using Cons.IH [OF m] by simp
qed

lemma item_tabulate: "list_all2 (<) idx s \<Longrightarrow> item (tabulate s f) idx = f idx"
  by (simp add: item_def tabulate_def ravel_less unravel_ravel)

lemma valid_tabulate [simp]: "valid_tensor (tabulate s f)"
  by (simp add: valid_tensor_def tabulate_def)

lemma shape_tabulate [simp]: "shape (tabulate s f) = s"
  by (simp add: tabulate_def)

lemma data_tabulate: "k < numel s \<Longrightarrow> data (tabulate s f) ! k = f (unravel s k)"
  by (simp add: tabulate_def)

lemma shape_reshape [simp]: "shape (reshape s t) = s"
  by (simp add: reshape_def)

lemma data_reshape [simp]: "data (reshape s t) = data t"
  by (simp add: reshape_def)

lemma shape_full [simp]: "shape (full s c) = s"
  by (simp add: full_def)

lemma valid_full [simp]: "valid_tensor (full s c)"
  by (simp add: valid_tensor_def full_def)

lemma item_full: "list_all2 (<) idx s \<Longrightarrow> item (full s c) idx = c"
  by (simp add: item_def full_def ravel_less)

section \<open>Exceptions and the constructor\<close>

lemma or_raise_Inr [simp]: "or_raise r e = Inr v \<longleftrightarrow> r = Some v"
  by (cases r) (simp_all add: or_raise_def)

lemma or_raise_Inl [simp]: "or_raise r e = Inl e' \<longleftrightarrow> r = None \<and> e' = e"
  by (cases r) (auto simp: or_raise_def)

lemma bind_e_Inr [simp]: "bind_e r f = Inr v \<longleftrightarrow> (\<exists>x. r = Inr x \<and> f x = Inr v)"
  by (cases r) (simp_all add: bind_e_def)

lemma bind_e_Inl [simp]: "bind_e (Inl e) f = Inl e"
  by (simp add: bind_e_def)

lemma bind_e_Inr_left [simp]: "bind_e (Inr x) f = f x"
  by (simp add: bind_e_def)

lemma bind_e_Inl_iff: "bind_e r f = Inl e \<longleftrightarrow> r = Inl e \<or> (\<exists>x. r = Inr x \<and> f x = Inl e)"
  by (cases r) (simp_all add: bind_e_def)

lemma length_range_py [simp]: "length (range_py n) = nat n"
  by (simp add: range_py_def)

lemma nth_range_py [simp]: "k < nat n \<Longrightarrow> range_py n ! k = k"
  by (simp add: range_py_def)

lemma module_list_Inr:
  "module_list mk place is = Inr bs \<Longrightarrow>
     length bs = length is \<and> (\<forall>k<length is. mk (is ! k) = Some (bs ! k))"
proof (induction "is" arbitrary: bs)
  case Nil
  then show ?case by simp
next
  case (Cons i rest)
  from Cons.prems obtain b bs' where b: "mk i = Some b"
    and rest: "module_list mk place rest = Inr bs'" and bs: "bs = b # bs'"
    by auto
  from Cons.IH [OF rest] have len: "length bs' = length rest"
    and each: "\<forall>k<length rest. mk (rest ! k) = Some (bs' ! k)" by simp_all
  show ?case
  proof (intro conjI allI impI)
    show "length bs = length (i # rest)" using len bs by simp
  next
    fix k assume "k < length (i # rest)"
    then show "mk ((i # rest) ! k) = Some (bs ! k)"
      using b each bs by (cases k) simp_all
  qed
qed

lemma module_list_Inl: "module_list mk place is = Inl e \<Longrightarrow> \<exists>i. e = Raised (place i)"
proof (induction "is")
  case Nil
  then show ?case by simp
next
  case (Cons i rest)
  then show ?case by (auto simp: bind_e_Inl_iff)
qed

lemma module_list_no_ValueError [simp]: "module_list mk place is \<noteq> Inl (ValueError msg)"
  using module_list_Inl [of mk place "is" "ValueError msg"] by auto

lemma flux_init_checks_passed:
  assumes "num_heads p \<noteq> 0" "hidden_size p mod num_heads p = 0"
    "sum_list (axes_dim p) = hidden_size p div num_heads p"
  shows "flux_init L image_model dt dev ops p \<noteq> Inl (ValueError msg)"
  using assms by (simp add: flux_init_def Let_def bind_e_Inl_iff)

lemma flux_init_channels:
  assumes "flux_init L image_model dt dev ops p = Inr m"
  shows "params m = p \<and> out_channels m = in_channels p \<and> self_in_channels m = in_channels p
    \<and> (\<exists>ops'. LastLayer L Final_layer (hidden_size p) 1 (in_channels p) dt dev ops'
          = Some (final_layer m))"
  using assms by (auto simp: flux_init_def Let_def split: if_splits)

lemma toy_init:
  "flux_init toy_layers None None None (Some toy_operations) toy_params = Inr toy_flux"
  by (simp add: flux_init_def toy_layers_def toy_operations_def toy_params_def toy_flux_def
      range_py_def Let_def or_raise_def numeral_2_eq_2 cong: if_cong)

section \<open>Tensors given by their elements\<close>

lemma tabulate_cong:
  assumes "\<And>idx. list_all2 (<) idx s \<Longrightarrow> f idx = g idx"
  shows "tabulate s f = tabulate s g"
proof -
  have "map (\<lambda>k. f (unravel s k)) [0..<numel s] = map (\<lambda>k. g (unravel s k)) [0..<numel s]"
    using assms unravel_in_range by (intro map_cong) auto
  then show ?thesis by (simp add: tabulate_def)
qed

lemma list_all2_2:
  assumes "list_all2 (<) idx [a, b]"
  obtains i j where "idx = [i, j]" "i < a" "j < (b::nat)"
  using assms by (auto simp: list_all2_Cons2)

lemma list_all2_3:
  assumes "list_all2 (<) idx [a, b, c]"
  obtains i j k where "idx = [i, j, k]" "i < a" "j < b" "k < (c::nat)"
  using assms by (auto simp: list_all2_Cons2)

lemma list_all2_4:
  assumes "list_all2 (<) idx [a, b, c, d]"
  obtains i j k l where "idx = [i, j, k, l]" "i < a" "j < b" "k < c" "l < (d::nat)"
  using assms by (auto simp: list_all2_Cons2)

section \<open>Claims about the constructor\<close>

text \<open>
  C8 (as amended). \<^verbatim>\<open>Flux.__init__\<close> with \<open>num_heads = 0\<close> raises ZeroDivisionError at
  \<^verbatim>\<open>hidden_size % num_heads\<close>. With \<open>num_heads \<noteq> 0\<close> it raises ValueError when
  \<open>hidden_size\<close> is not divisible by \<open>num_heads\<close>, raises ValueError when the sum of
  \<open>axes_dim\<close> is not \<open>hidden_size // num_heads\<close>, and raises no ValueError exactly when
  both conditions hold.
\<close>

theorem flux_init_validation:
  "(num_heads p = 0 \<longrightarrow> flux_init L image_model dt dev ops p = Inl ZeroDivisionError)
   \<and> (num_heads p \<noteq> 0 \<longrightarrow>
        (\<not> num_heads p dvd hidden_size p \<longrightarrow>
           flux_init L image_model dt dev ops p = Inl (ValueError
             ''Hidden size {params.hidden_size} must be divisible by num_heads {params.num_heads}''))
      \<and> (num_heads p dvd hidden_size p
           \<and> sum_list (axes_dim p) \<noteq> hidden_size p div num_heads p \<longrightarrow>
           flux_init L image_model dt dev ops p = Inl (ValueError
             ''Got {params.axes_dim} but expected positional dim {pe_dim}''))
      \<and> ((\<forall>msg. flux_init L image_model dt dev ops p \<noteq> Inl (ValueError msg))
           \<longleftrightarrow> num_heads p dvd hidden_size p
             \<and> sum_list (axes_dim p) = hidden_size p div num_heads p))"
proof (intro conjI impI)
  assume "num_heads p = 0"
  then show "flux_init L image_model dt dev ops p = Inl ZeroDivisionError"
    by (simp add: flux_init_def)
next
  assume "num_heads p \<noteq> 0" "\<not> num_heads p dvd hidden_size p"
  then show "flux_init L image_model dt dev ops p = Inl (ValueError
      ''Hidden size {params.hidden_size} must be divisible by num_heads {params.num_heads}'')"
    by (simp add: flux_init_def dvd_eq_mod_eq_0)
next
  assume "num_heads p \<noteq> 0"
    "num_heads p dvd hidden_size p \<and> sum_list (axes_dim p) \<noteq> hidden_size p div num_heads p"
  then show "flux_init L image_model dt dev ops p = Inl (ValueError
      ''Got {params.axes_dim} but expected positional dim {pe_dim}'')"
    by (simp add: flux_init_def dvd_eq_mod_eq_0 Let_def)
next
  assume nz: "num_heads p \<noteq> 0"
  show "(\<forall>msg. flux_init L image_model dt dev ops p \<noteq> Inl (ValueError msg))
     \<longleftrightarrow> num_heads p dvd hidden_size p
        \<and> sum_list (axes_dim p) = hidden_size p div num_heads p"
  proof
    assume no: "\<forall>msg. flux_init L image_model dt dev ops p \<noteq> Inl (ValueError msg)"
    show "num_heads p dvd hidden_size p
        \<and> sum_list (axes_dim p) = hidden_size p div num_heads p"
    proof (rule ccontr)
      assume "\<not> ?thesis"
      then have "\<exists>msg. flux_init L image_model dt dev ops p = Inl (ValueError msg)"
        using nz by (auto simp: flux_init_def dvd_eq_mod_eq_0 Let_def)
      with no show False by blast
    qed
  next
    assume "num_heads p dvd hidden_size p
        \<and> sum_list (axes_dim p) = hidden_size p div num_heads p"
    then show "\<forall>msg. flux_init L image_model dt dev ops p \<noteq> Inl (ValueError msg)"
      using nz flux_init_checks_passed [of p L image_model dt dev ops]
      by (simp add: dvd_eq_mod_eq_0)
  qed
qed

theorem flux_init_validation_witness:
  "flux_init toy_layers None None None (Some toy_operations) (toy_params\<lparr>num_heads := 0\<rparr>)
     = Inl ZeroDivisionError
   \<and> flux_init toy_layers None None None (Some toy_operations) (toy_params\<lparr>num_heads := 3\<rparr>)
     = Inl (ValueError
         ''Hidden size {params.hidden_size} must be divisible by num_heads {params.num_heads}'')
   \<and> flux_init toy_layers None None None (Some toy_operations) (toy_params\<lparr>axes_dim := [2, 3]\<rparr>)
     = Inl (ValueError ''Got {params.axes_dim} but expected positional dim {pe_dim}'')
   \<and> flux_init toy_layers None None None (Some toy_operations) toy_params
     \<noteq> Inl (ValueError ''Got {params.axes_dim} but expected positional dim {pe_dim}'')"
proof -
  let ?init = "flux_init toy_layers None None None (Some toy_operations)"
  have a: "num_heads (toy_params\<lparr>num_heads := 0\<rparr>) = 0" by simp
  have b: "num_heads (toy_params\<lparr>num_heads := 3\<rparr>) \<noteq> 0"
    "\<not> num_heads (toy_params\<lparr>num_heads := 3\<rparr>) dvd hidden_size (toy_params\<lparr>num_heads := 3\<rparr>)"
    by (simp_all add: toy_params_def)
  have c: "num_heads (toy_params\<lparr>axes_dim := [2, 3]\<rparr>) \<noteq> 0"
    "num_heads (toy_params\<lparr>axes_dim := [2, 3]\<rparr>) dvd hidden_size (toy_params\<lparr>axes_dim := [2, 3]\<rparr>)"
    "sum_list (axes_dim (toy_params\<lparr>axes_dim := [2, 3]\<rparr>))
       \<noteq> hidden_size (toy_params\<lparr>axes_dim := [2, 3]\<rparr>) div num_heads (toy_params\<lparr>axes_dim := [2, 3]\<rparr>)"
    by (simp_all add: toy_params_def)
  have d: "num_heads toy_params \<noteq> 0" "num_heads toy_params dvd hidden_size toy_params"
    "sum_list (axes_dim toy_params) = hidden_size toy_params div num_heads toy_params"
    by (simp_all add: toy_params_def)
  show ?thesis
    using flux_init_validation [of "toy_params\<lparr>num_heads := 0\<rparr>" toy_layers None None None "Some toy_operations"]
      flux_init_validation [of "toy_params\<lparr>num_heads := 3\<rparr>" toy_layers None None None "Some toy_operations"]
      flux_init_validation [of "toy_params\<lparr>axes_dim := [2, 3]\<rparr>" toy_layers None None None "Some toy_operations"]
      flux_init_validation [of toy_params toy_layers None None None "Some toy_operations"]
      a b c d
    by blast
qed

theorem flux_init_zero_heads_counterexample:
  "\<not> num_heads (toy_params\<lparr>num_heads := 0\<rparr>) dvd hidden_size (toy_params\<lparr>num_heads := 0\<rparr>)
   \<and> flux_init toy_layers None None None (Some toy_operations) (toy_params\<lparr>num_heads := 0\<rparr>)
       = Inl ZeroDivisionError"
  by (simp add: flux_init_def toy_params_def)

text \<open>
  C7 (as amended). A model that \<^verbatim>\<open>Flux.__init__\<close> returns has \<open>max(depth, 0)\<close>
  double-stream blocks and \<open>max(depth_single_blocks, 0)\<close> single-stream blocks, each
  constructed from the configuration; one image and one text input projection, one
  timestep and one vector embedder, a guidance embedder when \<open>guidance_embed\<close> is true
  and \<^verbatim>\<open>nn.Identity()\<close> otherwise, one positional embedder and one final layer, whose
  width \<open>out_channels\<close> is \<open>in_channels\<close>.
\<close>

theorem flux_init_composition:
  assumes "flux_init L image_model dt dev ops p = Inr m"
  shows "length (double_blocks m) = nat (depth p)
    \<and> length (single_blocks m) = nat (depth_single_blocks p)
    \<and> (\<exists>ops'. ops = Some ops'
        \<and> (\<forall>i<nat (depth p).
              DoubleStreamBlock L (Double_blocks i) (hidden_size p) (num_heads p) (mlp_ratio p)
                (qkv_bias p) dt dev ops' = Some (double_blocks m ! i))
        \<and> (\<forall>i<nat (depth_single_blocks p).
              SingleStreamBlock L (Single_blocks i) (hidden_size p) (num_heads p) (mlp_ratio p)
                dt dev ops' = Some (single_blocks m ! i))
        \<and> Linear ops' Img_in (in_channels p) (hidden_size p) (Some True) dt dev = Some (img_in m)
        \<and> Linear ops' Txt_in (context_in_dim p) (hidden_size p) None dt dev = Some (txt_in m)
        \<and> MLPEmbedder L Time_in 256 (hidden_size p) dt dev ops' = Some (time_in m)
        \<and> MLPEmbedder L Vector_in (vec_in_dim p) (hidden_size p) dt dev ops' = Some (vector_in m)
        \<and> (if guidance_embed p
            then MLPEmbedder L Guidance_in 256 (hidden_size p) dt dev ops' = Some (guidance_in m)
            else guidance_in m = Identity)
        \<and> LastLayer L Final_layer (hidden_size p) 1 (in_channels p) dt dev ops'
            = Some (final_layer m))
    \<and> EmbedND L Pe_embedder (hidden_size p div num_heads p) (theta p) (axes_dim p)
        = Some (pe_embedder m)
    \<and> params m = p \<and> out_channels m = in_channels p \<and> self_in_channels m = in_channels p"
proof -
  from assms obtain pe ops' ii ti vi gi xi dbs sbs fl where
    pe: "EmbedND L Pe_embedder (hidden_size p div num_heads p) (theta p) (axes_dim p) = Some pe"
    and ops: "ops = Some ops'"
    and ii: "Linear ops' Img_in (in_channels p) (hidden_size p) (Some True) dt dev = Some ii"
    and ti: "MLPEmbedder L Time_in 256 (hidden_size p) dt dev ops' = Some ti"
    and vi: "MLPEmbedder L Vector_in (vec_in_dim p) (hidden_size p) dt dev ops' = Some vi"
    and gi: "(if guidance_embed p
            then or_raise (MLPEmbedder L Guidance_in 256 (hidden_size p) dt dev ops') (Raised Guidance_in)
            else Inr Identity) = Inr gi"
    and xi: "Linear ops' Txt_in (context_in_dim p) (hidden_size p) None dt dev = Some xi"
    and dbs: "module_list (\<lambda>i. DoubleStreamBlock L (Double_blocks i) (hidden_size p) (num_heads p)
             (mlp_ratio p) (qkv_bias p) dt dev ops') Double_blocks (range_py (depth p)) = Inr dbs"
    and sbs: "module_list (\<lambda>i. SingleStreamBlock L (Single_blocks i) (hidden_size p) (num_heads p)
             (mlp_ratio p) dt dev ops') Single_blocks (range_py (depth_single_blocks p)) = Inr sbs"
    and fl: "LastLayer L Final_layer (hidden_size p) 1 (in_channels p) dt dev ops' = Some fl"
    and m: "m = \<lparr>dtype = dt, params = p,
           self_in_channels = in_channels p, out_channels = in_channels p,
           self_hidden_size = hidden_size p, self_num_heads = num_heads p,
           pe_embedder = pe, img_in = ii, time_in = ti,
           vector_in = vi, guidance_in = gi, txt_in = xi,
           double_blocks = dbs, single_blocks = sbs,
           final_layer = fl\<rparr>"
    by (auto simp: flux_init_def Let_def split: if_splits)
  note d = module_list_Inr [OF dbs]
  note s = module_list_Inr [OF sbs]
  from gi have g: "if guidance_embed p
            then MLPEmbedder L Guidance_in 256 (hidden_size p) dt dev ops' = Some gi
            else gi = Identity"
    by (auto split: if_splits)
  show ?thesis
    using pe ops ii ti vi g xi fl d s by (simp add: m)
qed

theorem flux_init_composition_witness:
  "flux_init toy_layers None None None (Some toy_operations) toy_params = Inr toy_flux
   \<and> length (double_blocks toy_flux) = 2 \<and> length (single_blocks toy_flux) = 1
   \<and> Linear toy_operations Img_in 4 8 (Some True) None None = Some (img_in toy_flux)
   \<and> MLPEmbedder toy_layers Guidance_in 256 8 None None toy_operations
       = Some (guidance_in toy_flux)
   \<and> out_channels toy_flux = 4"
  using flux_init_composition [OF toy_init] toy_init by (simp add: toy_params_def)

theorem flux_init_negative_depth_counterexample:
  "flux_init toy_layers None None None (Some toy_operations) (toy_params\<lparr>depth := - 1\<rparr>)
     = Inr (toy_flux\<lparr>params := toy_params\<lparr>depth := - 1\<rparr>, double_blocks := []\<rparr>)
   \<and> int (length (double_blocks
         (toy_flux\<lparr>params := toy_params\<lparr>depth := - 1\<rparr>, double_blocks := []\<rparr>)))
       \<noteq> depth (toy_params\<lparr>depth := - 1\<rparr>)"
  by (simp add: flux_init_def toy_layers_def toy_operations_def toy_params_def toy_flux_def
      range_py_def Let_def or_raise_def cong: if_cong)

section \<open>Runs\<close>

lemma fst_ret [simp]: "fst (ret v) = []" and snd_ret [simp]: "snd (ret v) = Inr v"
  by (simp_all add: ret_def)

lemma fst_raise [simp]: "fst (raise e) = []" and snd_raise [simp]: "snd (raise e) = Inl e"
  by (simp_all add: raise_def)

lemma fst_lift [simp]: "fst (lift r) = []" and snd_lift [simp]: "snd (lift r) = r"
  by (simp_all add: lift_def)

lemma fst_call [simp]: "fst (call c args r) = [Call c args]"
  and snd_call [simp]: "snd (call c args r) = or_raise r (Raised c)"
  by (simp_all add: call_def)

lemma snd_and_then_Inr [simp]:
  "snd (and_then r f) = Inr v \<longleftrightarrow> (\<exists>x. snd r = Inr x \<and> snd (f x) = Inr v)"
  by (cases "snd r") (simp_all add: and_then_def)

lemma snd_and_then_Inl:
  "snd (and_then r f) = Inl e \<longleftrightarrow> snd r = Inl e \<or> (\<exists>x. snd r = Inr x \<and> snd (f x) = Inl e)"
  by (cases "snd r") (simp_all add: and_then_def)

lemma fst_and_then_Inl: "snd r = Inl e \<Longrightarrow> fst (and_then r f) = fst r"
  by (simp add: and_then_def)

lemma fst_and_then_Inr: "snd r = Inr x \<Longrightarrow> fst (and_then r f) = fst r @ fst (f x)"
  by (simp add: and_then_def)

lemma and_then_Inr: "snd r = Inr x \<Longrightarrow> and_then r f = (fst r @ fst (f x), snd (f x))"
  by (simp add: and_then_def)

lemma and_then_Inl: "snd r = Inl e \<Longrightarrow> and_then r f = (fst r, Inl e)"
  by (simp add: and_then_def)

lemma in_fst_and_then:
  "e \<in> set (fst (and_then r f)) \<longleftrightarrow>
     e \<in> set (fst r) \<or> (\<exists>x. snd r = Inr x \<and> e \<in> set (fst (f x)))"
  by (cases "snd r") (simp_all add: and_then_def)

lemma block_calls_Nil [simp]: "block_calls [] = []"
  by (simp add: block_calls_def)

lemma block_calls_append [simp]: "block_calls (a @ b) = block_calls a @ block_calls b"
  by (simp add: block_calls_def)

lemma block_calls_Cons [simp]:
  "block_calls (Call c args # tr) = (if is_block c then c # block_calls tr else block_calls tr)"
  by (simp add: block_calls_def)

section \<open>The block loops\<close>

lemma run_double_blocks_Inr:
  "snd (run_double_blocks i blocks img txt vec pe) = Inr r
     \<longleftrightarrow> double_stack blocks vec pe (img, txt) = Some r"
proof (induction blocks arbitrary: i img "txt")
  case Nil
  then show ?case by simp
next
  case (Cons block blocks)
  show ?case
  proof (cases "block img txt vec pe")
    case None
    then show ?thesis by simp
  next
    case (Some s)
    then show ?thesis
      using Cons.IH [of "Suc i" "fst s" "snd s"] by (cases s) simp
  qed
qed

lemma run_single_blocks_Inr:
  "snd (run_single_blocks i blocks x vec pe) = Inr r
     \<longleftrightarrow> single_stack blocks vec pe x = Some r"
proof (induction blocks arbitrary: i x)
  case Nil
  then show ?case by simp
next
  case (Cons block blocks)
  show ?case
  proof (cases "block x vec pe")
    case None
    then show ?thesis by simp
  next
    case (Some s)
    then show ?thesis using Cons.IH [of "Suc i" s] by simp
  qed
qed

lemma run_double_blocks_Inl:
  "snd (run_double_blocks i blocks img txt vec pe) = Inl e \<Longrightarrow> \<exists>j. e = Raised (Double_blocks j)"
proof (induction blocks arbitrary: i img "txt")
  case Nil
  then show ?case by simp
next
  case (Cons block blocks)
  then show ?case by (auto simp: snd_and_then_Inl)
qed

lemma run_single_blocks_Inl:
  "snd (run_single_blocks i blocks x vec pe) = Inl e \<Longrightarrow> \<exists>j. e = Raised (Single_blocks j)"
proof (induction blocks arbitrary: i x)
  case Nil
  then show ?case by simp
next
  case (Cons block blocks)
  then show ?case by (auto simp: snd_and_then_Inl)
qed



lemma run_double_blocks_calls:
  "\<exists>k\<le>length blocks.
     block_calls (fst (run_double_blocks i blocks img txt vec pe)) = map Double_blocks [i..<i + k]
     \<and> ((\<exists>r. snd (run_double_blocks i blocks img txt vec pe) = Inr r) \<longrightarrow> k = length blocks)"
proof (induction blocks arbitrary: i img "txt")
  case Nil
  then show ?case by simp
next
  case (Cons block blocks)
  show ?case
  proof (cases "block img txt vec pe")
    case None
    then have "block_calls (fst (run_double_blocks i (block # blocks) img txt vec pe))
        = map Double_blocks [i..<i + 1]"
      by (simp add: fst_and_then_Inl)
    moreover have "\<not> (\<exists>r. snd (run_double_blocks i (block # blocks) img txt vec pe) = Inr r)"
      using None by simp
    ultimately show ?thesis
      by (intro exI [of _ 1]) (simp del: run_double_blocks.simps run_single_blocks.simps)
  next
    case (Some s)
    obtain img' txt' where s: "s = (img', txt')" by (cases s)
    from Cons.IH [of "Suc i" img' txt'] obtain k where k: "k \<le> length blocks"
      and calls: "block_calls (fst (run_double_blocks (Suc i) blocks img' txt' vec pe))
         = map Double_blocks [Suc i..<Suc i + k]"
      and full: "(\<exists>r. snd (run_double_blocks (Suc i) blocks img' txt' vec pe) = Inr r)
         \<longrightarrow> k = length blocks"
      by blast
    have "block_calls (fst (run_double_blocks i (block # blocks) img txt vec pe))
        = Double_blocks i # map Double_blocks [Suc i..<Suc i + k]"
      using Some s calls by (simp add: fst_and_then_Inr)
    also have "\<dots> = map Double_blocks [i..<i + Suc k]"
      by (simp add: upt_conv_Cons)
    finally have "block_calls (fst (run_double_blocks i (block # blocks) img txt vec pe))
        = map Double_blocks [i..<i + Suc k]" .
    moreover have "(\<exists>r. snd (run_double_blocks i (block # blocks) img txt vec pe) = Inr r)
        \<longrightarrow> Suc k = length (block # blocks)"
      using Some s full by simp
    ultimately show ?thesis using k
      by (intro exI [of _ "Suc k"]) (simp del: run_double_blocks.simps run_single_blocks.simps)
  qed
qed

lemma run_single_blocks_calls:
  "\<exists>k\<le>length blocks.
     block_calls (fst (run_single_blocks i blocks x vec pe)) = map Single_blocks [i..<i + k]
     \<and> ((\<exists>r. snd (run_single_blocks i blocks x vec pe) = Inr r) \<longrightarrow> k = length blocks)"
proof (induction blocks arbitrary: i x)
  case Nil
  then show ?case by simp
next
  case (Cons block blocks)
  show ?case
  proof (cases "block x vec pe")
    case None
    then have "block_calls (fst (run_single_blocks i (block # blocks) x vec pe))
        = map Single_blocks [i..<i + 1]"
      by (simp add: fst_and_then_Inl)
    moreover have "\<not> (\<exists>r. snd (run_single_blocks i (block # blocks) x vec pe) = Inr r)"
      using None by simp
    ultimately show ?thesis
      by (intro exI [of _ 1]) (simp del: run_double_blocks.simps run_single_blocks.simps)
  next
    case (Some x')
    from Cons.IH [of "Suc i" x'] obtain k where k: "k \<le> length blocks"
      and calls: "block_calls (fst (run_single_blocks (Suc i) blocks x' vec pe))
         = map Single_blocks [Suc i..<Suc i + k]"
      and full: "(\<exists>r. snd (run_single_blocks (Suc i) blocks x' vec pe) = Inr r)
         \<longrightarrow> k = length blocks"
      by blast
    have "block_calls (fst (run_single_blocks i (block # blocks) x vec pe))
        = Single_blocks i # map Single_blocks [Suc i..<Suc i + k]"
      using Some calls by (simp add: fst_and_then_Inr)
    also have "\<dots> = map Single_blocks [i..<i + Suc k]"
      by (simp add: upt_conv_Cons)
    finally have "block_calls (fst (run_single_blocks i (block # blocks) x vec pe))
        = map Single_blocks [i..<i + Suc k]" .
    moreover have "(\<exists>r. snd (run_single_blocks i (block # blocks) x vec pe) = Inr r)
        \<longrightarrow> Suc k = length (block # blocks)"
      using Some full by simp
    ultimately show ?thesis using k
      by (intro exI [of _ "Suc k"]) (simp del: run_double_blocks.simps run_single_blocks.simps)
  qed
qed

section \<open>Outcomes of \<^verbatim>\<open>forward_orig\<close>\<close>

lemma torch_add_no_ValueError [simp]: "torch_add a b \<noteq> Inl (ValueError msg)"
  by (simp add: torch_add_def split: option.splits)

lemma torch_cat_no_ValueError [simp]: "torch_cat a b d \<noteq> Inl (ValueError msg)"
  by (simp add: torch_cat_def)

lemma shape_at_no_ValueError [simp]: "shape_at t i \<noteq> Inl (ValueError msg)"
  by (simp add: shape_at_def)

lemma slice_from1_no_ValueError [simp]: "slice_from1 t n \<noteq> Inl (ValueError msg)"
  by (simp add: slice_from1_def)

lemma shape_at_Inr [simp]: "shape_at t i = Inr n \<longleftrightarrow> i < ndim t \<and> n = shape t ! i"
  by (auto simp: shape_at_def)

lemma add_opt_Some [simp]: "add_opt a b = Some s \<longleftrightarrow> torch_add a b = Inr s"
  by (simp add: add_opt_def split: sum.splits)

lemma conditioning_Inr:
  "snd (conditioning L m timesteps y guidance) = Inr vec
     \<longleftrightarrow> conditioning_vector L m timesteps y guidance = Some vec"
proof (cases "guidance_embed (params m)")
  case True
  then show ?thesis
    by (cases guidance)
      (auto simp: conditioning_def conditioning_vector_def bind_eq_Some_conv)
next
  case False
  then show ?thesis
    by (auto simp: conditioning_def conditioning_vector_def bind_eq_Some_conv)
qed

lemma conditioning_ValueError:
  "snd (conditioning L m timesteps y guidance) = Inl (ValueError msg)
     \<longleftrightarrow> guidance_embed (params m) \<and> guidance = None
       \<and> msg = ''Didn't get guidance strength for guidance distilled model.''
       \<and> (\<exists>t_emb. timestep_embedding L timesteps 256 = Some t_emb \<and> time_in m t_emb \<noteq> None)"
  by (cases guidance) (auto simp: conditioning_def snd_and_then_Inl)


lemma conditioning_events:
  "e \<in> set (fst (conditioning L m timesteps y guidance)) \<Longrightarrow> \<not> is_block (callee_of e)"
  by (cases guidance) (auto simp: conditioning_def in_fst_and_then split: if_splits)

lemma block_calls_none: "(\<And>e. e \<in> set tr \<Longrightarrow> \<not> is_block (callee_of e)) \<Longrightarrow> block_calls tr = []"
  by (simp add: block_calls_def filter_empty_conv)

lemma conditioning_block_calls [simp]:
  "block_calls (fst (conditioning L m timesteps y guidance)) = []"
  by (rule block_calls_none) (rule conditioning_events)

lemma forward_orig_Inr:
  "snd (forward_orig L m img img_ids txt txt_ids timesteps y guidance) = Inr out
     \<longleftrightarrow> ndim img = 3 \<and> ndim txt = 3
       \<and> (\<exists>img1 vec txt1 ids pe img2 txt2 x1 x2 x3.
            img_in m img = Some img1
          \<and> conditioning_vector L m timesteps y guidance = Some vec
          \<and> txt_in m txt = Some txt1
          \<and> torch_cat txt_ids img_ids 1 = Inr ids
          \<and> pe_embedder m ids = Some pe
          \<and> double_stack (double_blocks m) vec pe (img1, txt1) = Some (img2, txt2)
          \<and> torch_cat txt2 img2 1 = Inr x1
          \<and> single_stack (single_blocks m) vec pe x1 = Some x2
          \<and> 1 < ndim txt2
          \<and> slice_from1 x2 (shape txt2 ! 1) = Inr x3
          \<and> final_layer m x3 vec = Some out)"
  by (auto simp: forward_orig_def conditioning_Inr run_double_blocks_Inr run_single_blocks_Inr
      case_prod_beta)

lemma run_double_blocks_no_ValueError [simp]:
  "snd (run_double_blocks i blocks img txt vec pe) \<noteq> Inl (ValueError msg)"
  using run_double_blocks_Inl [of i blocks img "txt" vec pe "ValueError msg"] by auto

lemma run_single_blocks_no_ValueError [simp]:
  "snd (run_single_blocks i blocks x vec pe) \<noteq> Inl (ValueError msg)"
  using run_single_blocks_Inl [of i blocks x vec pe "ValueError msg"] by auto

lemma forward_orig_ValueError:
  "snd (forward_orig L m img img_ids txt txt_ids timesteps y guidance) = Inl (ValueError msg)
     \<longleftrightarrow> (if ndim img \<noteq> 3 \<or> ndim txt \<noteq> 3
          then msg = ''Input img and txt tensors must have 3 dimensions.''
          else img_in m img \<noteq> None
            \<and> snd (conditioning L m timesteps y guidance) = Inl (ValueError msg))"
  by (auto simp: forward_orig_def snd_and_then_Inl case_prod_beta)

lemma calls_in_order_step:
  assumes "block_calls (fst r) = []"
    and "\<And>x. snd r = Inr x \<Longrightarrow> calls_in_order (f x) expected"
  shows "calls_in_order (and_then r f) expected"
proof (cases "snd r")
  case (Inl e)
  then show ?thesis using assms(1)
    by (simp add: calls_in_order_def and_then_def)
next
  case (Inr x)
  then show ?thesis using assms(1) assms(2) [OF Inr]
    by (simp add: calls_in_order_def and_then_def)
qed

lemma calls_in_order_append:
  assumes "calls_in_order r a"
    and "\<And>x. snd r = Inr x \<Longrightarrow> calls_in_order (f x) b"
  shows "calls_in_order (and_then r f) (a @ b)"
proof (cases "snd r")
  case (Inl e)
  then show ?thesis using assms(1)
    by (auto simp: calls_in_order_def and_then_def)
next
  case (Inr x)
  then show ?thesis using assms(1) assms(2) [OF Inr]
    by (auto simp: calls_in_order_def and_then_def)
qed

lemma calls_in_order_double:
  "calls_in_order (run_double_blocks 0 blocks img txt vec pe)
     (map Double_blocks [0..<length blocks])"
proof -
  from run_double_blocks_calls [of blocks 0 img "txt" vec pe]
  obtain k where k: "k \<le> length blocks"
    and calls: "block_calls (fst (run_double_blocks 0 blocks img txt vec pe))
        = map Double_blocks [0..<k]"
    and full: "(\<exists>r. snd (run_double_blocks 0 blocks img txt vec pe) = Inr r)
        \<longrightarrow> k = length blocks"
    by auto
  have "[0..<length blocks] = [0..<k] @ [k..<length blocks]"
    using k by (metis le_add_diff_inverse upt_add_eq_append zero_le)
  then have "map Double_blocks [0..<length blocks]
      = block_calls (fst (run_double_blocks 0 blocks img txt vec pe))
        @ map Double_blocks [k..<length blocks]"
    using calls by simp
  then show ?thesis
    unfolding calls_in_order_def using full by (intro exI [of _ "map Double_blocks [k..<length blocks]"]) auto
qed

lemma calls_in_order_single:
  "calls_in_order (run_single_blocks 0 blocks x vec pe)
     (map Single_blocks [0..<length blocks])"
proof -
  from run_single_blocks_calls [of blocks 0 x vec pe]
  obtain k where k: "k \<le> length blocks"
    and calls: "block_calls (fst (run_single_blocks 0 blocks x vec pe))
        = map Single_blocks [0..<k]"
    and full: "(\<exists>r. snd (run_single_blocks 0 blocks x vec pe) = Inr r)
        \<longrightarrow> k = length blocks"
    by auto
  have "[0..<length blocks] = [0..<k] @ [k..<length blocks]"
    using k by (metis le_add_diff_inverse upt_add_eq_append zero_le)
  then have "map Single_blocks [0..<length blocks]
      = block_calls (fst (run_single_blocks 0 blocks x vec pe))
        @ map Single_blocks [k..<length blocks]"
    using calls by simp
  then show ?thesis
    unfolding calls_in_order_def using full by (intro exI [of _ "map Single_blocks [k..<length blocks]"]) auto
qed

lemma calls_in_order_final:
  "calls_in_order (call Final_layer args r) [Final_layer]"
  by (simp add: calls_in_order_def)

lemma calls_in_order_raise: "calls_in_order (raise e) expected"
  by (simp add: calls_in_order_def)

lemma forward_orig_calls_in_order:
  "calls_in_order (forward_orig L m img img_ids txt txt_ids timesteps y guidance)
     (map Double_blocks [0..<length (double_blocks m)]
      @ map Single_blocks [0..<length (single_blocks m)] @ [Final_layer])"
  unfolding forward_orig_def
proof (cases "ndim img \<noteq> 3 \<or> ndim txt \<noteq> 3")
  case True
  then show "calls_in_order
     (if ndim img \<noteq> 3 \<or> ndim txt \<noteq> 3
      then raise (ValueError ''Input img and txt tensors must have 3 dimensions.'')
      else and_then (call Img_in [img] (img_in m img)) (\<lambda>img.
        and_then (conditioning L m timesteps y guidance) (\<lambda>vec.
        and_then (call Txt_in [txt] (txt_in m txt)) (\<lambda>txt.
        and_then (lift (torch_cat txt_ids img_ids 1)) (\<lambda>ids.
        and_then (call Pe_embedder [ids] (pe_embedder m ids)) (\<lambda>pe.
        and_then (run_double_blocks 0 (double_blocks m) img txt vec pe) (\<lambda>(img, txt).
        and_then (lift (torch_cat txt img 1)) (\<lambda>img.
        and_then (run_single_blocks 0 (single_blocks m) img vec pe) (\<lambda>img.
        and_then (lift (shape_at txt 1)) (\<lambda>n.
        and_then (lift (slice_from1 img n)) (\<lambda>img.
        call Final_layer [img, vec] (final_layer m img vec))))))))))))
     (map Double_blocks [0..<length (double_blocks m)]
      @ map Single_blocks [0..<length (single_blocks m)] @ [Final_layer])"
    by (simp add: calls_in_order_raise)
next
  case False
  then show "calls_in_order
     (if ndim img \<noteq> 3 \<or> ndim txt \<noteq> 3
      then raise (ValueError ''Input img and txt tensors must have 3 dimensions.'')
      else and_then (call Img_in [img] (img_in m img)) (\<lambda>img.
        and_then (conditioning L m timesteps y guidance) (\<lambda>vec.
        and_then (call Txt_in [txt] (txt_in m txt)) (\<lambda>txt.
        and_then (lift (torch_cat txt_ids img_ids 1)) (\<lambda>ids.
        and_then (call Pe_embedder [ids] (pe_embedder m ids)) (\<lambda>pe.
        and_then (run_double_blocks 0 (double_blocks m) img txt vec pe) (\<lambda>(img, txt).
        and_then (lift (torch_cat txt img 1)) (\<lambda>img.
        and_then (run_single_blocks 0 (single_blocks m) img vec pe) (\<lambda>img.
        and_then (lift (shape_at txt 1)) (\<lambda>n.
        and_then (lift (slice_from1 img n)) (\<lambda>img.
        call Final_layer [img, vec] (final_layer m img vec))))))))))))
     (map Double_blocks [0..<length (double_blocks m)]
      @ map Single_blocks [0..<length (single_blocks m)] @ [Final_layer])"
    apply (simp only: if_False)
    apply (rule calls_in_order_step, simp)
    apply (rule calls_in_order_step, simp)
    apply (rule calls_in_order_step, simp)
    apply (rule calls_in_order_step, simp)
    apply (rule calls_in_order_step, simp)
    apply (rule calls_in_order_append, rule calls_in_order_double)
    apply (simp only: case_prod_beta)
    apply (rule calls_in_order_step, simp)
    apply (rule calls_in_order_append, rule calls_in_order_single)
    apply (rule calls_in_order_step, simp)
    apply (rule calls_in_order_step, simp)
    apply (rule calls_in_order_final)
    done
qed


section \<open>Operations on constant tensors\<close>

lemma tabulate_const:
  assumes "\<And>idx. list_all2 (<) idx s \<Longrightarrow> f idx = c"
  shows "tabulate s f = full s c"
proof -
  have "map (\<lambda>k. f (unravel s k)) [0..<numel s] = replicate (numel s) c"
  proof (rule nth_equalityI)
    show "length (map (\<lambda>k. f (unravel s k)) [0..<numel s]) = length (replicate (numel s) c)"
      by simp
  next
    fix k assume "k < length (map (\<lambda>k. f (unravel s k)) [0..<numel s])"
    then have k: "k < numel s" by simp
    then show "map (\<lambda>k. f (unravel s k)) [0..<numel s] ! k = replicate (numel s) c ! k"
      using assms [OF unravel_in_range [OF k]] by simp
  qed
  then show ?thesis by (simp add: tabulate_def full_def)
qed

lemma broadcast_rev_same [simp]: "broadcast_rev xs xs = Some xs"
  by (induction xs) simp_all

lemma broadcast_shapes_same [simp]: "broadcast_shapes s s = Some s"
  by (simp add: broadcast_shapes_def)

lemma bidx_same: "list_all2 (<) idx s \<Longrightarrow> bidx s idx = idx"
proof -
  assume r: "list_all2 (<) idx s"
  then have len: "length idx = length s" by (rule list_all2_lengthD)
  have "map2 (\<lambda>d i. if d = 1 then 0 else i) s idx = idx"
    using r by (induction idx s rule: list_all2_induct) auto
  then show ?thesis using len by (simp add: bidx_def)
qed

lemma torch_add_full: "torch_add (full s a) (full s b) = Inr (full s (a + b))"
  by (simp add: torch_add_def tabulate_const bidx_same item_full)

lemma torch_cat_full3:
  "torch_cat (full [a, b, c] v) (full [a, b', c] v) (Suc 0) = Inr (full [a, b + b', c] v)"
proof -
  have "tabulate [a, b + b', c]
      (\<lambda>idx. if idx ! 1 < b then item (full [a, b, c] v) idx
             else item (full [a, b', c] v) (idx[1 := idx ! 1 - b])) = full [a, b + b', c] v"
  proof (rule tabulate_const)
    fix idx assume "list_all2 (<) idx [a, b + b', c]"
    then obtain i j k where idx: "idx = [i, j, k]" and b: "i < a" "j < b + b'" "k < c"
      by (auto simp: list_all2_Cons2)
    show "(if idx ! 1 < b then item (full [a, b, c] v) idx
             else item (full [a, b', c] v) (idx[1 := idx ! 1 - b])) = v"
      using b by (auto simp: idx item_full)
  qed
  then show ?thesis by (simp add: torch_cat_def ndim_def cong: if_cong)
qed

lemma slice_from1_full3:
  "slice_from1 (full [a, b, c] v) n = Inr (full [a, b - n, c] v)"
proof -
  have "tabulate [a, b - n, c] (\<lambda>idx. item (full [a, b, c] v) (idx[1 := idx ! 1 + n]))
      = full [a, b - n, c] v"
  proof (rule tabulate_const)
    fix idx assume "list_all2 (<) idx [a, b - n, c]"
    then obtain i j k where idx: "idx = [i, j, k]" and b: "i < a" "j < b - n" "k < c"
      by (auto simp: list_all2_Cons2)
    show "item (full [a, b, c] v) (idx[1 := idx ! 1 + n]) = v"
      using b by (auto simp: idx item_full)
  qed
  then show ?thesis by (simp add: slice_from1_def ndim_def cong: if_cong)
qed

lemma ndim_full [simp]: "ndim (full s c) = length s"
  by (simp add: ndim_def)

lemma toy_projection_full:
  "s \<noteq> [] \<Longrightarrow> last s = i \<Longrightarrow> toy_projection i o' c (full s v) = Some (full (butlast s @ [o']) c)"
  by (simp add: toy_projection_def)

section \<open>The run of the small model\<close>

lemma toy_conditioning:
  "conditioning toy_layers toy_flux toy_timesteps toy_y (Some toy_guidance) =
     ([Call Timestep_embedding [toy_timesteps], Call Time_in [full [1, 256] 0],
       Call Timestep_embedding [toy_guidance], Call Guidance_in [full [1, 256] 0],
       Call Vector_in [toy_y]],
      Inr (full [1, 8] 7))"
  by (simp add: conditioning_def toy_layers_def toy_flux_def toy_params_def toy_timesteps_def
      toy_y_def toy_guidance_def and_then_def call_def lift_def or_raise_def ndim_def
      toy_projection_full torch_add_full)


section \<open>Shapes along \<^verbatim>\<open>forward_orig\<close>\<close>

lemma double_stack_shape:
  "list_all double_keeps_shape blocks \<Longrightarrow> double_stack blocks vec pe s = Some s'
     \<Longrightarrow> shape (fst s') = shape (fst s) \<and> shape (snd s') = shape (snd s)"
proof (induction blocks arbitrary: s)
  case Nil
  then show ?case by simp
next
  case (Cons block blocks)
  from Cons.prems(2) obtain s1 where s1: "block (fst s) (snd s) vec pe = Some s1"
    and rest: "double_stack blocks vec pe s1 = Some s'"
    by (auto simp: bind_eq_Some_conv)
  from Cons.prems(1) have "double_keeps_shape block" and all: "list_all double_keeps_shape blocks"
    by simp_all
  then have "shape (fst s1) = shape (fst s) \<and> shape (snd s1) = shape (snd s)"
    using s1 unfolding double_keeps_shape_def by (cases s1) auto
  then show ?case using Cons.IH [OF all rest] by simp
qed

lemma single_stack_shape:
  "list_all single_keeps_shape blocks \<Longrightarrow> single_stack blocks vec pe x = Some x'
     \<Longrightarrow> shape x' = shape x"
proof (induction blocks arbitrary: x)
  case Nil
  then show ?case by simp
next
  case (Cons block blocks)
  from Cons.prems(2) obtain x1 where x1: "block x vec pe = Some x1"
    and rest: "single_stack blocks vec pe x1 = Some x'"
    by (auto simp: bind_eq_Some_conv)
  from Cons.prems(1) have "single_keeps_shape block" and all: "list_all single_keeps_shape blocks"
    by simp_all
  then have "shape x1 = shape x"
    using x1 unfolding single_keeps_shape_def by auto
  then show ?case using Cons.IH [OF all rest] by simp
qed

lemma torch_cat_shape:
  "torch_cat a b d = Inr x \<Longrightarrow>
     shape x = (shape a)[d := shape a ! d + shape b ! d] \<and> ndim a = ndim b \<and> d < ndim a
     \<and> (shape a)[d := 0] = (shape b)[d := 0]"
  by (auto simp: torch_cat_def split: if_splits)

lemma slice_from1_shape:
  "slice_from1 x n = Inr r \<Longrightarrow> shape r = (shape x)[1 := shape x ! 1 - n] \<and> 2 \<le> ndim x"
  by (auto simp: slice_from1_def split: if_splits)

lemma slice_from1_item:
  "slice_from1 x n = Inr r \<Longrightarrow> list_all2 (<) idx (shape r)
     \<Longrightarrow> item r idx = item x (idx[1 := idx ! 1 + n])"
  by (auto simp: slice_from1_def item_tabulate split: if_splits)

lemma keeps_tokens_3:
  assumes "ndim r = ndim x" "butlast (shape r) = butlast (shape x)" "ndim x = 3"
  shows "shape r ! 0 = shape x ! 0 \<and> shape r ! 1 = shape x ! 1"
proof -
  have "butlast (shape r) ! 0 = shape r ! 0" "butlast (shape r) ! 1 = shape r ! 1"
    "butlast (shape x) ! 0 = shape x ! 0" "butlast (shape x) ! 1 = shape x ! 1"
    using assms(1,3) by (simp_all add: nth_butlast ndim_def)
  then show ?thesis using assms(2) by simp
qed

lemma forward_orig_shapes:
  assumes contract: "shape_contract m"
    and run: "snd (forward_orig L m img img_ids txt txt_ids timesteps y guidance) = Inr out"
  shows "\<exists>vec pe img2 txt2 x1 x2 x3.
       torch_cat txt2 img2 1 = Inr x1
     \<and> single_stack (single_blocks m) vec pe x1 = Some x2
     \<and> slice_from1 x2 (shape txt2 ! 1) = Inr x3
     \<and> final_layer m x3 vec = Some out
     \<and> shape x2 ! 1 = shape txt2 ! 1 + shape img ! 1
     \<and> shape x3 ! 1 = shape img ! 1
     \<and> ndim out = 3 \<and> shape out ! 0 = shape img ! 0 \<and> shape out ! 1 = shape img ! 1"
proof -
  from run [unfolded forward_orig_Inr] obtain img1 vec txt1 ids pe img2 txt2 x1 x2 x3 where
    nd: "ndim img = 3"
    and img1: "img_in m img = Some img1"
    and ds: "double_stack (double_blocks m) vec pe (img1, txt1) = Some (img2, txt2)"
    and cat: "torch_cat txt2 img2 1 = Inr x1"
    and ss: "single_stack (single_blocks m) vec pe x1 = Some x2"
    and sl: "slice_from1 x2 (shape txt2 ! 1) = Inr x3"
    and fl: "final_layer m x3 vec = Some out"
    by blast
  from contract have k1: "keeps_tokens (img_in m)"
    and kd: "list_all double_keeps_shape (double_blocks m)"
    and ks: "list_all single_keeps_shape (single_blocks m)"
    and kl: "last_keeps_tokens (final_layer m)"
    by (simp_all add: shape_contract_def)
  from k1 img1 have i1: "ndim img1 = ndim img" "butlast (shape img1) = butlast (shape img)"
    by (auto simp: keeps_tokens_def)
  then have s1: "ndim img1 = 3" "shape img1 ! 0 = shape img ! 0" "shape img1 ! 1 = shape img ! 1"
    using keeps_tokens_3 [of img1 img] nd by simp_all
  from double_stack_shape [OF kd ds] have s2: "shape img2 = shape img1" by simp
  from torch_cat_shape [OF cat] have c: "shape x1 = (shape txt2)[1 := shape txt2 ! 1 + shape img2 ! 1]"
    "ndim txt2 = ndim img2" "(shape txt2)[1 := 0] = (shape img2)[1 := 0]"
    by simp_all
  have n2: "ndim txt2 = 3" using c(2) s2 s1(1) by (simp add: ndim_def)
  have "(shape txt2)[1 := 0] ! 0 = (shape img2)[1 := 0] ! 0" using c(3) by simp
  then have t0: "shape txt2 ! 0 = shape img ! 0" using s2 s1(2) by simp
  have x1: "length (shape x1) = 3" "shape x1 ! 0 = shape img ! 0"
    "shape x1 ! 1 = shape txt2 ! 1 + shape img ! 1"
    using c(1) n2 t0 s2 s1(3) by (simp_all add: ndim_def)
  from single_stack_shape [OF ks ss] have x2: "shape x2 = shape x1" .
  from slice_from1_shape [OF sl] have x3s: "shape x3 = (shape x2)[1 := shape x2 ! 1 - shape txt2 ! 1]"
    by simp
  then have x3: "length (shape x3) = 3" "shape x3 ! 0 = shape img ! 0" "shape x3 ! 1 = shape img ! 1"
    using x1 x2 by simp_all
  from kl fl have o: "ndim out = ndim x3" "butlast (shape out) = butlast (shape x3)"
    by (auto simp: last_keeps_tokens_def)
  have "ndim x3 = 3" using x3(1) by (simp add: ndim_def)
  with o keeps_tokens_3 [of out x3] x3 have "ndim out = 3 \<and> shape out ! 0 = shape img ! 0
      \<and> shape out ! 1 = shape img ! 1"
    by simp
  moreover have "shape x2 ! 1 = shape txt2 ! 1 + shape img ! 1" using x1(3) x2 by simp
  ultimately show ?thesis using cat ss sl fl x3(3) by blast
qed

lemma butlast_3: "length xs = 3 \<Longrightarrow> butlast xs = [xs ! 0, xs ! 1]"
proof -
  assume "length xs = 3"
  then obtain a b c where "xs = [a, b, c]"
    by (auto simp: length_Suc_conv numeral_3_eq_3)
  then show ?thesis by simp
qed

lemma toy_shape_contract: "shape_contract toy_flux"
  by (auto simp: shape_contract_def toy_flux_def keeps_tokens_def double_keeps_shape_def
      single_keeps_shape_def last_keeps_tokens_def toy_projection_def ndim_def butlast_3
      split: if_splits)

section \<open>The trace of a run that returns\<close>

lemma run_double_blocks_trace:
  "fst (run_double_blocks i blocks img txt vec pe)
     = map (\<lambda>(k, s). Call (Double_blocks k) [fst s, snd s, vec, pe])
         (enumerate i (double_inputs blocks vec pe (img, txt)))"
proof (induction blocks arbitrary: i img "txt")
  case Nil
  then show ?case by simp
next
  case (Cons block blocks)
  show ?case
  proof (cases "block img txt vec pe")
    case None
    then show ?thesis by (simp add: fst_and_then_Inl)
  next
    case (Some s)
    then show ?thesis
      using Cons.IH [of "Suc i" "fst s" "snd s"] by (cases s) (simp add: fst_and_then_Inr)
  qed
qed

lemma run_single_blocks_trace:
  "fst (run_single_blocks i blocks x vec pe)
     = map (\<lambda>(k, x). Call (Single_blocks k) [x, vec, pe])
         (enumerate i (single_inputs blocks vec pe x))"
proof (induction blocks arbitrary: i x)
  case Nil
  then show ?case by simp
next
  case (Cons block blocks)
  show ?case
  proof (cases "block x vec pe")
    case None
    then show ?thesis by (simp add: fst_and_then_Inl)
  next
    case (Some x')
    then show ?thesis
      using Cons.IH [of "Suc i" x'] by (simp add: fst_and_then_Inr)
  qed
qed

lemma forward_orig_trace:
  assumes nd: "ndim img = 3" "ndim txt = 3"
    and img1: "img_in m img = Some img1"
    and vec: "conditioning_vector L m timesteps y guidance = Some vec"
    and txt1: "txt_in m txt = Some txt1"
    and ids: "torch_cat txt_ids img_ids 1 = Inr ids"
    and pe: "pe_embedder m ids = Some pe"
    and ds: "double_stack (double_blocks m) vec pe (img1, txt1) = Some (img2, txt2)"
    and cat: "torch_cat txt2 img2 1 = Inr x1"
    and ss: "single_stack (single_blocks m) vec pe x1 = Some x2"
    and sl: "slice_from1 x2 (shape txt2 ! 1) = Inr x3"
    and fl: "final_layer m x3 vec = Some out"
  shows "forward_orig L m img img_ids txt txt_ids timesteps y guidance
     = (Call Img_in [img] # fst (conditioning L m timesteps y guidance)
          @ [Call Txt_in [txt], Call Pe_embedder [ids]]
          @ double_events vec pe (double_inputs (double_blocks m) vec pe (img1, txt1))
          @ single_events vec pe (single_inputs (single_blocks m) vec pe x1)
          @ [Call Final_layer [x3, vec]],
        Inr out)"
proof -
  have c: "snd (conditioning L m timesteps y guidance) = Inr vec"
    using vec by (simp add: conditioning_Inr)
  have d: "snd (run_double_blocks 0 (double_blocks m) img1 txt1 vec pe) = Inr (img2, txt2)"
    using ds by (simp add: run_double_blocks_Inr)
  have s: "snd (run_single_blocks 0 (single_blocks m) x1 vec pe) = Inr x2"
    using ss by (simp add: run_single_blocks_Inr)
  have n: "shape_at txt2 1 = Inr (shape txt2 ! 1)"
    using cat by (simp add: torch_cat_def shape_at_def split: if_splits)
  have 1: "and_then (lift (slice_from1 x2 (shape txt2 ! 1)))
        (\<lambda>img. call Final_layer [img, vec] (final_layer m img vec))
      = ([Call Final_layer [x3, vec]], Inr out)"
    using sl fl by (simp add: and_then_Inr [where x = x3] call_def)
  have 2: "and_then (lift (shape_at txt2 1)) (\<lambda>n. and_then (lift (slice_from1 x2 n))
        (\<lambda>img. call Final_layer [img, vec] (final_layer m img vec)))
      = ([Call Final_layer [x3, vec]], Inr out)"
    using n 1 by (simp add: and_then_Inr [where x = "shape txt2 ! 1"])
  have 3: "and_then (run_single_blocks 0 (single_blocks m) x1 vec pe) (\<lambda>img.
        and_then (lift (shape_at txt2 1)) (\<lambda>n. and_then (lift (slice_from1 img n))
        (\<lambda>img. call Final_layer [img, vec] (final_layer m img vec))))
      = (single_events vec pe (single_inputs (single_blocks m) vec pe x1)
          @ [Call Final_layer [x3, vec]], Inr out)"
    using s 2 by (simp add: and_then_Inr [where x = x2] run_single_blocks_trace single_events_def)
  have 4: "and_then (lift (torch_cat txt2 img2 1)) (\<lambda>img.
        and_then (run_single_blocks 0 (single_blocks m) img vec pe) (\<lambda>img.
        and_then (lift (shape_at txt2 1)) (\<lambda>n. and_then (lift (slice_from1 img n))
        (\<lambda>img. call Final_layer [img, vec] (final_layer m img vec)))))
      = (single_events vec pe (single_inputs (single_blocks m) vec pe x1)
          @ [Call Final_layer [x3, vec]], Inr out)"
    using cat 3 by (simp add: and_then_Inr [where x = x1])
  have 5: "and_then (run_double_blocks 0 (double_blocks m) img1 txt1 vec pe) (\<lambda>(img, txt).
        and_then (lift (torch_cat txt img 1)) (\<lambda>img.
        and_then (run_single_blocks 0 (single_blocks m) img vec pe) (\<lambda>img.
        and_then (lift (shape_at txt 1)) (\<lambda>n. and_then (lift (slice_from1 img n))
        (\<lambda>img. call Final_layer [img, vec] (final_layer m img vec))))))
      = (double_events vec pe (double_inputs (double_blocks m) vec pe (img1, txt1))
          @ single_events vec pe (single_inputs (single_blocks m) vec pe x1)
          @ [Call Final_layer [x3, vec]], Inr out)"
    using d 4
    by (simp add: and_then_Inr [where x = "(img2, txt2)"] run_double_blocks_trace
        double_events_def)
  show ?thesis
    using nd img1 c txt1 ids pe 5
    by (simp add: forward_orig_def and_then_Inr [where x = img1] and_then_Inr [where x = vec]
        and_then_Inr [where x = txt1] and_then_Inr [where x = ids] and_then_Inr [where x = pe])
qed

lemma block_events_Nil [simp]: "block_events [] = []"
  by (simp add: block_events_def)

lemma block_events_append [simp]: "block_events (a @ b) = block_events a @ block_events b"
  by (simp add: block_events_def)

lemma block_events_Cons [simp]:
  "block_events (Call c args # tr)
     = (if is_block c then Call c args # block_events tr else block_events tr)"
  by (simp add: block_events_def)

lemma block_events_conditioning [simp]:
  "block_events (fst (conditioning L m timesteps y guidance)) = []"
  by (simp add: block_events_def filter_empty_conv conditioning_events)

lemma block_events_double [simp]:
  "block_events (double_events vec pe ss) = double_events vec pe ss"
  by (auto simp: block_events_def double_events_def filter_id_conv)

lemma block_events_single [simp]:
  "block_events (single_events vec pe xs) = single_events vec pe xs"
  by (auto simp: block_events_def single_events_def filter_id_conv)

lemma forward_orig_block_events:
  assumes "ndim img = 3" "ndim txt = 3"
    and "img_in m img = Some img1"
    and "conditioning_vector L m timesteps y guidance = Some vec"
    and "txt_in m txt = Some txt1"
    and "torch_cat txt_ids img_ids 1 = Inr ids"
    and "pe_embedder m ids = Some pe"
    and "double_stack (double_blocks m) vec pe (img1, txt1) = Some (img2, txt2)"
    and "torch_cat txt2 img2 1 = Inr x1"
    and "single_stack (single_blocks m) vec pe x1 = Some x2"
    and "slice_from1 x2 (shape txt2 ! 1) = Inr x3"
    and "final_layer m x3 vec = Some out"
  shows "snd (forward_orig L m img img_ids txt txt_ids timesteps y guidance) = Inr out"
    and "block_events (fst (forward_orig L m img img_ids txt txt_ids timesteps y guidance))
     = double_events vec pe (double_inputs (double_blocks m) vec pe (img1, txt1))
       @ single_events vec pe (single_inputs (single_blocks m) vec pe x1)
       @ [Call Final_layer [x3, vec]]"
  by (simp_all add: forward_orig_trace [OF assms])

section \<open>Elements of a concatenation\<close>

lemma torch_cat_item_left:
  assumes "torch_cat a b d = Inr x" and "list_all2 (<) idx (shape a)"
  shows "item x idx = item a idx"
proof -
  from assms(1) have d: "d < length (shape a)"
    and x: "x = tabulate ((shape a)[d := shape a ! d + shape b ! d])
        (\<lambda>idx. if idx ! d < shape a ! d then item a idx
               else item b (idx[d := idx ! d - shape a ! d]))"
    by (auto simp: torch_cat_def ndim_def split: if_splits)
  from assms(2) d have less: "idx ! d < shape a ! d"
    by (simp add: list_all2_conv_all_nth)
  have "idx ! k < (shape a)[d := shape a ! d + shape b ! d] ! k" if "k < length (shape a)" for k
  proof (cases "k = d")
    case True
    then show ?thesis using less that by simp
  next
    case False
    then show ?thesis using assms(2) that by (simp add: list_all2_conv_all_nth)
  qed
  then have "list_all2 (<) idx ((shape a)[d := shape a ! d + shape b ! d])"
    using assms(2) by (simp add: list_all2_conv_all_nth)
  then show ?thesis using less by (simp add: x item_tabulate)
qed

lemma torch_cat_item_right:
  assumes "torch_cat a b d = Inr x" and "list_all2 (<) idx (shape b)"
  shows "item x (idx[d := shape a ! d + idx ! d]) = item b idx"
proof -
  from assms(1) have d: "d < length (shape a)" and len: "length (shape a) = length (shape b)"
    and same: "(shape a)[d := 0] = (shape b)[d := 0]"
    and x: "x = tabulate ((shape a)[d := shape a ! d + shape b ! d])
        (\<lambda>idx. if idx ! d < shape a ! d then item a idx
               else item b (idx[d := idx ! d - shape a ! d]))"
    by (auto simp: torch_cat_def ndim_def split: if_splits)
  from assms(2) have li: "length idx = length (shape b)"
    and lt: "\<And>k. k < length (shape b) \<Longrightarrow> idx ! k < shape b ! k"
    by (simp_all add: list_all2_conv_all_nth)
  have other: "shape a ! k = shape b ! k" if "k \<noteq> d" "k < length (shape a)" for k
  proof -
    have "(shape a)[d := 0] ! k = (shape b)[d := 0] ! k" using same by simp
    then show ?thesis using that by simp
  qed
  have r: "list_all2 (<) (idx[d := shape a ! d + idx ! d])
      ((shape a)[d := shape a ! d + shape b ! d])"
    unfolding list_all2_conv_all_nth
  proof (intro conjI allI impI)
    show "length (idx[d := shape a ! d + idx ! d])
        = length ((shape a)[d := shape a ! d + shape b ! d])"
      using li len by simp
  next
    fix k assume "k < length (idx[d := shape a ! d + idx ! d])"
    then have k: "k < length (shape b)" using li by simp
    show "idx[d := shape a ! d + idx ! d] ! k < (shape a)[d := shape a ! d + shape b ! d] ! k"
    proof (cases "k = d")
      case True
      then show ?thesis using k li len lt [of d] by simp
    next
      case False
      then show ?thesis using k li len lt [of k] other [of k] by simp
    qed
  qed
  have "(idx[d := shape a ! d + idx ! d])[d := (idx[d := shape a ! d + idx ! d]) ! d - shape a ! d]
      = idx"
    using d li len by (simp add: list_update_same_conv)
  moreover have "\<not> (idx[d := shape a ! d + idx ! d]) ! d < shape a ! d"
    using d li len by simp
  ultimately show ?thesis by (simp add: x item_tabulate [OF r])
qed

section \<open>Tokens along a run that returns\<close>

lemma forward_orig_tokens:
  assumes contract: "shape_contract m"
    and run: "snd (forward_orig L m img img_ids txt txt_ids timesteps y guidance) = Inr out"
  shows "\<exists>img1 vec txt1 ids pe img2 txt2 x1 x2 x3.
              img_in m img = Some img1
            \<and> conditioning_vector L m timesteps y guidance = Some vec
            \<and> txt_in m txt = Some txt1
            \<and> torch_cat txt_ids img_ids 1 = Inr ids
            \<and> pe_embedder m ids = Some pe
            \<and> double_stack (double_blocks m) vec pe (img1, txt1) = Some (img2, txt2)
            \<and> torch_cat txt2 img2 1 = Inr x1
            \<and> single_stack (single_blocks m) vec pe x1 = Some x2
            \<and> slice_from1 x2 (shape txt2 ! 1) = Inr x3
            \<and> final_layer m x3 vec = Some out
        \<and> last (fst (forward_orig L m img img_ids txt txt_ids timesteps y guidance))
            = Call Final_layer [x3, vec]
        \<and> shape img2 ! 1 = shape img ! 1
        \<and> shape x1 ! 1 = shape txt2 ! 1 + shape img ! 1
        \<and> shape x2 ! 1 = shape txt2 ! 1 + shape img ! 1
        \<and> shape x3 ! 1 = shape img ! 1
        \<and> shape out ! 1 = shape img ! 1
        \<and> (\<forall>idx. list_all2 (<) idx (shape txt2) \<longrightarrow> item x1 idx = item txt2 idx)
        \<and> (\<forall>idx. list_all2 (<) idx (shape img2) \<longrightarrow>
              item x1 (idx[1 := shape txt2 ! 1 + idx ! 1]) = item img2 idx)
        \<and> (\<forall>idx. list_all2 (<) idx (shape x3) \<longrightarrow>
              item x3 idx = item x2 (idx[1 := idx ! 1 + shape txt2 ! 1]))"
proof -
  from run [unfolded forward_orig_Inr] obtain img1 vec txt1 ids pe img2 txt2 x1 x2 x3 where
    nd: "ndim img = 3" "ndim txt = 3"
    and img1: "img_in m img = Some img1"
    and vec: "conditioning_vector L m timesteps y guidance = Some vec"
    and txt1: "txt_in m txt = Some txt1"
    and ids: "torch_cat txt_ids img_ids 1 = Inr ids"
    and pe: "pe_embedder m ids = Some pe"
    and ds: "double_stack (double_blocks m) vec pe (img1, txt1) = Some (img2, txt2)"
    and cat: "torch_cat txt2 img2 1 = Inr x1"
    and ss: "single_stack (single_blocks m) vec pe x1 = Some x2"
    and sl: "slice_from1 x2 (shape txt2 ! 1) = Inr x3"
    and fl: "final_layer m x3 vec = Some out"
    by blast
  have final: "last (fst (forward_orig L m img img_ids txt txt_ids timesteps y guidance))
      = Call Final_layer [x3, vec]"
    by (simp add: forward_orig_trace [OF nd img1 vec txt1 ids pe ds cat ss sl fl])
  from contract have k1: "keeps_tokens (img_in m)"
    and kd: "list_all double_keeps_shape (double_blocks m)"
    and ks: "list_all single_keeps_shape (single_blocks m)"
    and kl: "last_keeps_tokens (final_layer m)"
    by (simp_all add: shape_contract_def)
  from k1 img1 have "ndim img1 = ndim img" "butlast (shape img1) = butlast (shape img)"
    by (auto simp: keeps_tokens_def)
  then have s1: "ndim img1 = 3" "shape img1 ! 1 = shape img ! 1"
    using keeps_tokens_3 [of img1 img] nd by simp_all
  from double_stack_shape [OF kd ds] have s2: "shape img2 = shape img1" by simp
  from torch_cat_shape [OF cat] have c: "shape x1 = (shape txt2)[1 := shape txt2 ! 1 + shape img2 ! 1]"
    "ndim txt2 = ndim img2"
    by simp_all
  have n2: "ndim txt2 = 3" using c(2) s2 s1(1) by (simp add: ndim_def)
  have x1: "length (shape x1) = 3" "shape x1 ! 1 = shape txt2 ! 1 + shape img ! 1"
    using c(1) n2 s2 s1(2) by (simp_all add: ndim_def)
  from single_stack_shape [OF ks ss] have x2: "shape x2 = shape x1" .
  from slice_from1_shape [OF sl] have "shape x3 = (shape x2)[1 := shape x2 ! 1 - shape txt2 ! 1]"
    by simp
  then have x3: "length (shape x3) = 3" "shape x3 ! 1 = shape img ! 1"
    using x1 x2 by simp_all
  from kl fl have o: "ndim out = ndim x3" "butlast (shape out) = butlast (shape x3)"
    by (auto simp: last_keeps_tokens_def)
  have "ndim x3 = 3" using x3(1) by (simp add: ndim_def)
  with o keeps_tokens_3 [of out x3] x3 have out: "shape out ! 1 = shape img ! 1"
    by simp
  have left: "\<forall>idx. list_all2 (<) idx (shape txt2) \<longrightarrow> item x1 idx = item txt2 idx"
    using torch_cat_item_left [OF cat] by blast
  have right: "\<forall>idx. list_all2 (<) idx (shape img2) \<longrightarrow>
      item x1 (idx[1 := shape txt2 ! 1 + idx ! 1]) = item img2 idx"
    using torch_cat_item_right [OF cat] by blast
  have slice: "\<forall>idx. list_all2 (<) idx (shape x3) \<longrightarrow>
      item x3 idx = item x2 (idx[1 := idx ! 1 + shape txt2 ! 1])"
    using slice_from1_item [OF sl] by blast
  have "shape img2 ! 1 = shape img ! 1" using s2 s1(2) by simp
  moreover have "shape x2 ! 1 = shape txt2 ! 1 + shape img ! 1" using x1(2) x2 by simp
  ultimately show ?thesis
    using img1 vec txt1 ids pe ds cat ss sl fl final x1(2) x3(2) out left right slice
    by blast
qed

section \<open>The run of the small model with marking blocks\<close>

lemma shape_shift [simp]: "shape (shift c t) = shape t"
  by (simp add: shift_def)

lemma shift_full: "shift c (full s v) = full s (v + c)"
  by (simp add: shift_def full_def)

lemma item_shift:
  "valid_tensor t \<Longrightarrow> list_all2 (<) idx (shape t) \<Longrightarrow> item (shift c t) idx = item t idx + c"
  using ravel_less [of idx "shape t"] by (simp add: item_def shift_def valid_tensor_def)

lemma marking_cat_eq:
  "torch_cat (full [1, 3, 8] (30::real)) (full [1, 2, 8] 3) 1 = Inr marking_cat"
proof -
  have "tabulate [1, 5, 8]
        (\<lambda>idx. if idx ! 1 < 3 then item (full [1, 3, 8] (30::real)) idx
               else item (full [1, 2, 8] 3) (idx[1 := idx ! 1 - 3]))
      = tabulate [1, 5, 8] (\<lambda>idx. if idx ! 1 < 3 then 30 else 3)"
  proof (rule tabulate_cong)
    fix idx :: "nat list" assume "list_all2 (<) idx [1, 5, 8]"
    then obtain i j k where idx: "idx = [i, j, k]" and b: "i < 1" "j < 5" "k < 8"
      by (rule list_all2_3)
    show "(if idx ! 1 < 3 then item (full [1, 3, 8] (30::real)) idx
           else item (full [1, 2, 8] 3) (idx[1 := idx ! 1 - 3]))
        = (if idx ! 1 < 3 then 30 else 3)"
      using b by (auto simp: idx item_full)
  qed
  then show ?thesis by (simp add: torch_cat_def marking_cat_def cong: if_cong)
qed

lemma marking_slice:
  "slice_from1 (shift 100 marking_cat) 3 = Inr (full [1, 2, 8] 103)"
proof -
  have "tabulate [1, 2, 8] (\<lambda>idx. item (shift 100 marking_cat) (idx[1 := idx ! 1 + 3]))
      = full [1, 2, 8] 103"
  proof (rule tabulate_const)
    fix idx :: "nat list" assume "list_all2 (<) idx [1, 2, 8]"
    then obtain i j k where idx: "idx = [i, j, k]" and b: "i < 1" "j < 2" "k < 8"
      by (rule list_all2_3)
    have r: "list_all2 (<) [i, j + 3, k] [1, 5, 8]" using b by simp
    have "item (shift 100 marking_cat) [i, j + 3, k] = item marking_cat [i, j + 3, k] + 100"
      using r by (intro item_shift) (simp_all add: marking_cat_def)
    also have "\<dots> = 103"
      unfolding marking_cat_def by (simp only: item_tabulate [OF r]) simp
    finally show "item (shift 100 marking_cat) (idx[1 := idx ! 1 + 3]) = 103"
      by (simp add: idx)
  qed
  then show ?thesis by (simp add: slice_from1_def ndim_def marking_cat_def)
qed

lemma marking_pipeline:
  "ndim toy_img = 3" "ndim toy_txt = 3"
  "img_in marking_flux toy_img = Some (full [1, 2, 8] 0)"
  "conditioning_vector toy_layers marking_flux toy_timesteps toy_y (Some toy_guidance)
     = Some (full [1, 8] 7)"
  "txt_in marking_flux toy_txt = Some (full [1, 3, 8] 0)"
  "torch_cat toy_txt_ids toy_img_ids 1 = Inr (full [1, 5, 3] 0)"
  "pe_embedder marking_flux (full [1, 5, 3] 0) = Some (full [1, 5, 3] 0)"
  "double_stack (double_blocks marking_flux) (full [1, 8] 7) (full [1, 5, 3] 0)
     (full [1, 2, 8] 0, full [1, 3, 8] 0) = Some (full [1, 2, 8] 3, full [1, 3, 8] 30)"
  "torch_cat (full [1, 3, 8] (30::real)) (full [1, 2, 8] 3) 1 = Inr marking_cat"
  "single_stack (single_blocks marking_flux) (full [1, 8] 7) (full [1, 5, 3] 0) marking_cat
     = Some (shift 100 marking_cat)"
  "slice_from1 (shift 100 marking_cat) (shape (full [1, 3, 8] (30::real)) ! 1)
     = Inr (full [1, 2, 8] 103)"
  "final_layer marking_flux (full [1, 2, 8] 103) (full [1, 8] 7) = Some (full [1, 2, 4] 103)"
proof -
  show "ndim toy_img = 3" "ndim toy_txt = 3"
    by (simp_all add: toy_img_def toy_txt_def)
  show "img_in marking_flux toy_img = Some (full [1, 2, 8] 0)"
    by (simp add: marking_flux_def toy_flux_def toy_img_def toy_projection_full)
  have "conditioning_vector toy_layers marking_flux toy_timesteps toy_y (Some toy_guidance)
      = conditioning_vector toy_layers toy_flux toy_timesteps toy_y (Some toy_guidance)"
    by (simp add: conditioning_vector_def marking_flux_def cong: if_cong)
  then show "conditioning_vector toy_layers marking_flux toy_timesteps toy_y (Some toy_guidance)
      = Some (full [1, 8] 7)"
    using conditioning_Inr [of toy_layers toy_flux toy_timesteps toy_y "Some toy_guidance"
        "full [1, 8] 7"]
    by (simp add: toy_conditioning)
  show "txt_in marking_flux toy_txt = Some (full [1, 3, 8] 0)"
    by (simp add: marking_flux_def toy_flux_def toy_txt_def toy_projection_full)
  show "torch_cat toy_txt_ids toy_img_ids 1 = Inr (full [1, 5, 3] 0)"
    using torch_cat_full3 [of 1 3 3 "0::real" 2]
    by (simp add: toy_txt_ids_def toy_img_ids_def)
  show "pe_embedder marking_flux (full [1, 5, 3] 0) = Some (full [1, 5, 3] 0)"
    by (simp add: marking_flux_def toy_flux_def)
  show "double_stack (double_blocks marking_flux) (full [1, 8] 7) (full [1, 5, 3] 0)
     (full [1, 2, 8] 0, full [1, 3, 8] 0) = Some (full [1, 2, 8] 3, full [1, 3, 8] 30)"
    by (simp add: marking_flux_def shift_full)
  show "torch_cat (full [1, 3, 8] (30::real)) (full [1, 2, 8] 3) 1 = Inr marking_cat"
    by (rule marking_cat_eq)
  show "single_stack (single_blocks marking_flux) (full [1, 8] 7) (full [1, 5, 3] 0) marking_cat
     = Some (shift 100 marking_cat)"
    by (simp add: marking_flux_def)
  show "slice_from1 (shift 100 marking_cat) (shape (full [1, 3, 8] (30::real)) ! 1)
     = Inr (full [1, 2, 8] 103)"
    using marking_slice by simp
  have "item (full [1, 2, 8] (103::real)) [0, 0, 0] = 103"
    by (simp add: item_full)
  then show "final_layer marking_flux (full [1, 2, 8] 103) (full [1, 8] 7)
      = Some (full [1, 2, 4] 103)"
    by (simp add: marking_flux_def)
qed

lemma marking_inputs:
  "double_inputs (double_blocks marking_flux) vec pe (full [1, 2, 8] 0, full [1, 3, 8] 0)
     = [(full [1, 2, 8] 0, full [1, 3, 8] 0), (full [1, 2, 8] 1, full [1, 3, 8] 10)]"
  "single_inputs (single_blocks marking_flux) vec pe x = [x]"
  by (simp_all add: marking_flux_def shift_full)

lemma marking_shape_contract: "shape_contract marking_flux"
  by (auto simp: shape_contract_def marking_flux_def toy_flux_def keeps_tokens_def
      double_keeps_shape_def single_keeps_shape_def last_keeps_tokens_def toy_projection_def
      ndim_def butlast_3 split: if_splits)

section \<open>Claims about \<^verbatim>\<open>forward_orig\<close>\<close>

text \<open>
  C10. \<^verbatim>\<open>forward_orig\<close> raises ValueError whenever \<open>img\<close> or \<open>txt\<close> is not
  3-dimensional, and has then called no sub-layer. When both are 3-dimensional the run
  does not end in that ValueError and goes on: its first call is \<open>img_in\<close> on \<open>img\<close>.
\<close>

theorem forward_orig_rank_check:
  "(ndim img \<noteq> 3 \<or> ndim txt \<noteq> 3 \<longrightarrow>
      forward_orig L m img img_ids txt txt_ids timesteps y guidance
        = ([], Inl (ValueError ''Input img and txt tensors must have 3 dimensions.'')))
   \<and> (ndim img = 3 \<and> ndim txt = 3 \<longrightarrow>
      snd (forward_orig L m img img_ids txt txt_ids timesteps y guidance)
        \<noteq> Inl (ValueError ''Input img and txt tensors must have 3 dimensions.'')
      \<and> (\<exists>rest. fst (forward_orig L m img img_ids txt txt_ids timesteps y guidance)
            = Call Img_in [img] # rest))"
proof (intro conjI impI)
  assume "ndim img \<noteq> 3 \<or> ndim txt \<noteq> 3"
  then show "forward_orig L m img img_ids txt txt_ids timesteps y guidance
        = ([], Inl (ValueError ''Input img and txt tensors must have 3 dimensions.''))"
    by (simp add: forward_orig_def raise_def)
next
  assume ok: "ndim img = 3 \<and> ndim txt = 3"
  show "snd (forward_orig L m img img_ids txt txt_ids timesteps y guidance)
        \<noteq> Inl (ValueError ''Input img and txt tensors must have 3 dimensions.'')"
    using ok by (simp add: forward_orig_ValueError conditioning_ValueError)
next
  assume ok: "ndim img = 3 \<and> ndim txt = 3"
  show "\<exists>rest. fst (forward_orig L m img img_ids txt txt_ids timesteps y guidance)
            = Call Img_in [img] # rest"
  proof (cases "img_in m img")
    case None
    then show ?thesis using ok by (simp add: forward_orig_def fst_and_then_Inl)
  next
    case (Some img1)
    then show ?thesis using ok by (simp add: forward_orig_def fst_and_then_Inr)
  qed
qed

theorem forward_orig_rank_check_witness:
  "forward_orig toy_layers toy_flux toy_y toy_img_ids toy_txt toy_txt_ids toy_timesteps toy_y
       (Some toy_guidance)
     = ([], Inl (ValueError ''Input img and txt tensors must have 3 dimensions.''))
   \<and> snd (forward_orig toy_layers toy_flux toy_img toy_img_ids toy_txt toy_txt_ids toy_timesteps
       toy_y (Some toy_guidance))
     \<noteq> Inl (ValueError ''Input img and txt tensors must have 3 dimensions.'')
   \<and> hd (fst (forward_orig toy_layers toy_flux toy_img toy_img_ids toy_txt toy_txt_ids
       toy_timesteps toy_y (Some toy_guidance))) = Call Img_in [toy_img]"
proof -
  have bad: "ndim toy_y \<noteq> 3 \<or> ndim toy_txt \<noteq> 3" by (simp add: toy_y_def)
  have ok: "ndim toy_img = 3 \<and> ndim toy_txt = 3" by (simp add: toy_img_def toy_txt_def)
  show ?thesis
    using forward_orig_rank_check [of toy_y toy_txt toy_layers toy_flux toy_img_ids toy_txt_ids
        toy_timesteps toy_y "Some toy_guidance"]
      forward_orig_rank_check [of toy_img toy_txt toy_layers toy_flux toy_img_ids toy_txt_ids
        toy_timesteps toy_y "Some toy_guidance"]
      bad ok
    by auto
qed






lemma expected_order_nth:
  assumes "p < q"
    and "q < length (map Double_blocks [0..<d] @ map Single_blocks [0..<s] @ [Final_layer])"
    and "(map Double_blocks [0..<d] @ map Single_blocks [0..<s] @ [Final_layer]) ! p
       = Single_blocks i"
  shows "(map Double_blocks [0..<d] @ map Single_blocks [0..<s] @ [Final_layer]) ! q
       \<noteq> Double_blocks j"
proof -
  have "\<not> p < d" using assms(3) by (auto simp: nth_append)
  then have "\<not> q < d" using assms(1) by simp
  then show ?thesis using assms(2) by (auto simp: nth_append)
qed

text \<open>
  C1. In every run of \<^verbatim>\<open>forward_orig\<close> the calls of blocks are an initial part of:
  the double-stream blocks in order, then the single-stream blocks in order, then the
  final layer; so no single-stream block is called before a double-stream block.
  A run returns only as the composition: the projections of \<open>img\<close> and \<open>txt\<close>, the
  double-stream stack on both streams, the concatenation of \<open>txt\<close> and \<open>img\<close> along
  dimension 1, the single-stream stack, the slice, the final layer. And whenever these
  steps are defined, the run returns the result of the final layer, and its calls of
  blocks are exactly: every double-stream block on the pair of streams the block before
  it returned (the first on the projected \<open>img\<close> and \<open>txt\<close>), then every single-stream
  block on what the block before it returned (the first on the concatenation), then
  the final layer on the slice.
\<close>

theorem forward_orig_block_order:
  "calls_in_order (forward_orig L m img img_ids txt txt_ids timesteps y guidance)
     (map Double_blocks [0..<length (double_blocks m)]
      @ map Single_blocks [0..<length (single_blocks m)] @ [Final_layer])
   \<and> (\<forall>p q i j. p < q
        \<and> q < length (block_calls
              (fst (forward_orig L m img img_ids txt txt_ids timesteps y guidance)))
        \<and> block_calls (fst (forward_orig L m img img_ids txt txt_ids timesteps y guidance)) ! p
            = Single_blocks i \<longrightarrow>
        block_calls (fst (forward_orig L m img img_ids txt txt_ids timesteps y guidance)) ! q
            \<noteq> Double_blocks j)
   \<and> (\<forall>out. snd (forward_orig L m img img_ids txt txt_ids timesteps y guidance) = Inr out \<longrightarrow>
        ndim img = 3 \<and> ndim txt = 3
        \<and> block_calls (fst (forward_orig L m img img_ids txt txt_ids timesteps y guidance))
          = map Double_blocks [0..<length (double_blocks m)]
            @ map Single_blocks [0..<length (single_blocks m)] @ [Final_layer]
        \<and> (\<exists>img1 vec txt1 ids pe img2 txt2 x1 x2 x3.
              img_in m img = Some img1
            \<and> conditioning_vector L m timesteps y guidance = Some vec
            \<and> txt_in m txt = Some txt1
            \<and> torch_cat txt_ids img_ids 1 = Inr ids
            \<and> pe_embedder m ids = Some pe
            \<and> double_stack (double_blocks m) vec pe (img1, txt1) = Some (img2, txt2)
            \<and> torch_cat txt2 img2 1 = Inr x1
            \<and> single_stack (single_blocks m) vec pe x1 = Some x2
            \<and> slice_from1 x2 (shape txt2 ! 1) = Inr x3
            \<and> final_layer m x3 vec = Some out))
   \<and> (\<forall>img1 vec txt1 ids pe img2 txt2 x1 x2 x3 out.
        ndim img = 3 \<and> ndim txt = 3
            \<and> img_in m img = Some img1
            \<and> conditioning_vector L m timesteps y guidance = Some vec
            \<and> txt_in m txt = Some txt1
            \<and> torch_cat txt_ids img_ids 1 = Inr ids
            \<and> pe_embedder m ids = Some pe
            \<and> double_stack (double_blocks m) vec pe (img1, txt1) = Some (img2, txt2)
            \<and> torch_cat txt2 img2 1 = Inr x1
            \<and> single_stack (single_blocks m) vec pe x1 = Some x2
            \<and> slice_from1 x2 (shape txt2 ! 1) = Inr x3
            \<and> final_layer m x3 vec = Some out \<longrightarrow>
        snd (forward_orig L m img img_ids txt txt_ids timesteps y guidance) = Inr out
        \<and> block_events (fst (forward_orig L m img img_ids txt txt_ids timesteps y guidance))
          = double_events vec pe (double_inputs (double_blocks m) vec pe (img1, txt1))
            @ single_events vec pe (single_inputs (single_blocks m) vec pe x1)
            @ [Call Final_layer [x3, vec]])"
proof -
  let ?run = "forward_orig L m img img_ids txt txt_ids timesteps y guidance"
  let ?expected = "map Double_blocks [0..<length (double_blocks m)]
      @ map Single_blocks [0..<length (single_blocks m)] @ [Final_layer]"
  have order: "calls_in_order ?run ?expected"
    by (rule forward_orig_calls_in_order)
  then obtain rest where rest: "?expected = block_calls (fst ?run) @ rest"
    and all: "(\<exists>v. snd ?run = Inr v) \<longrightarrow> rest = []"
    unfolding calls_in_order_def by blast
  have before: "block_calls (fst ?run) ! q \<noteq> Double_blocks j"
    if "p < q" "q < length (block_calls (fst ?run))" "block_calls (fst ?run) ! p = Single_blocks i"
    for p q i j
  proof -
    have len: "q < length ?expected" using that(2) rest
      by (metis length_append trans_less_add1)
    have "?expected ! p = Single_blocks i" "?expected ! q = block_calls (fst ?run) ! q"
      using that rest by (simp_all add: nth_append)
    then show ?thesis
      using expected_order_nth [OF that(1) len, of i j] by simp
  qed
  have returned: "ndim img = 3 \<and> ndim txt = 3 \<and> block_calls (fst ?run) = ?expected
      \<and> (\<exists>img1 vec txt1 ids pe img2 txt2 x1 x2 x3.
              img_in m img = Some img1
            \<and> conditioning_vector L m timesteps y guidance = Some vec
            \<and> txt_in m txt = Some txt1
            \<and> torch_cat txt_ids img_ids 1 = Inr ids
            \<and> pe_embedder m ids = Some pe
            \<and> double_stack (double_blocks m) vec pe (img1, txt1) = Some (img2, txt2)
            \<and> torch_cat txt2 img2 1 = Inr x1
            \<and> single_stack (single_blocks m) vec pe x1 = Some x2
            \<and> slice_from1 x2 (shape txt2 ! 1) = Inr x3
            \<and> final_layer m x3 vec = Some out)"
    if "snd ?run = Inr out" for out
  proof -
    have "block_calls (fst ?run) = ?expected" using that rest all by simp
    moreover from that [unfolded forward_orig_Inr]
    have "ndim img = 3 \<and> ndim txt = 3
      \<and> (\<exists>img1 vec txt1 ids pe img2 txt2 x1 x2 x3.
              img_in m img = Some img1
            \<and> conditioning_vector L m timesteps y guidance = Some vec
            \<and> txt_in m txt = Some txt1
            \<and> torch_cat txt_ids img_ids 1 = Inr ids
            \<and> pe_embedder m ids = Some pe
            \<and> double_stack (double_blocks m) vec pe (img1, txt1) = Some (img2, txt2)
            \<and> torch_cat txt2 img2 1 = Inr x1
            \<and> single_stack (single_blocks m) vec pe x1 = Some x2
            \<and> slice_from1 x2 (shape txt2 ! 1) = Inr x3
            \<and> final_layer m x3 vec = Some out)"
      by blast
    ultimately show ?thesis by blast
  qed
  have composed: "snd ?run = Inr out
      \<and> block_events (fst ?run)
          = double_events vec pe (double_inputs (double_blocks m) vec pe (img1, txt1))
            @ single_events vec pe (single_inputs (single_blocks m) vec pe x1)
            @ [Call Final_layer [x3, vec]]"
    if "ndim img = 3 \<and> ndim txt = 3
            \<and> img_in m img = Some img1
            \<and> conditioning_vector L m timesteps y guidance = Some vec
            \<and> txt_in m txt = Some txt1
            \<and> torch_cat txt_ids img_ids 1 = Inr ids
            \<and> pe_embedder m ids = Some pe
            \<and> double_stack (double_blocks m) vec pe (img1, txt1) = Some (img2, txt2)
            \<and> torch_cat txt2 img2 1 = Inr x1
            \<and> single_stack (single_blocks m) vec pe x1 = Some x2
            \<and> slice_from1 x2 (shape txt2 ! 1) = Inr x3
            \<and> final_layer m x3 vec = Some out"
    for img1 vec txt1 ids pe img2 txt2 x1 x2 x3 out
  proof -
    from that have p: "ndim img = 3" "ndim txt = 3"
      "img_in m img = Some img1"
      "conditioning_vector L m timesteps y guidance = Some vec"
      "txt_in m txt = Some txt1"
      "torch_cat txt_ids img_ids 1 = Inr ids"
      "pe_embedder m ids = Some pe"
      "double_stack (double_blocks m) vec pe (img1, txt1) = Some (img2, txt2)"
      "torch_cat txt2 img2 1 = Inr x1"
      "single_stack (single_blocks m) vec pe x1 = Some x2"
      "slice_from1 x2 (shape txt2 ! 1) = Inr x3"
      "final_layer m x3 vec = Some out"
      by simp_all
    show ?thesis
      using forward_orig_block_events [OF p] by simp
  qed
  show ?thesis
    apply (intro conjI allI impI)
    subgoal by (rule order)
    subgoal for p q i j using before [of p q i j] by blast
    subgoal for out using returned [of out] by blast
    subgoal for out using returned [of out] by blast
    subgoal for out using returned [of out] by blast
    subgoal for out using returned [of out] by blast
    subgoal for img1 vec txt1 ids pe img2 txt2 x1 x2 x3 out
      using composed [of img1 vec txt1 ids pe img2 txt2 x1 x2 x3 out] by blast
    subgoal for img1 vec txt1 ids pe img2 txt2 x1 x2 x3 out
      using composed [of img1 vec txt1 ids pe img2 txt2 x1 x2 x3 out] by blast
    done
qed

theorem forward_orig_block_order_witness:
  "snd (forward_orig toy_layers marking_flux toy_img toy_img_ids toy_txt toy_txt_ids
       toy_timesteps toy_y (Some toy_guidance)) = Inr (full [1, 2, 4] 103)
   \<and> block_events (fst (forward_orig toy_layers marking_flux toy_img toy_img_ids toy_txt
       toy_txt_ids toy_timesteps toy_y (Some toy_guidance)))
     = [Call (Double_blocks 0) [full [1, 2, 8] 0, full [1, 3, 8] 0, full [1, 8] 7, full [1, 5, 3] 0],
        Call (Double_blocks 1) [full [1, 2, 8] 1, full [1, 3, 8] 10, full [1, 8] 7, full [1, 5, 3] 0],
        Call (Single_blocks 0) [marking_cat, full [1, 8] 7, full [1, 5, 3] 0],
        Call Final_layer [full [1, 2, 8] 103, full [1, 8] 7]]
   \<and> torch_cat (full [1, 3, 8] (30::real)) (full [1, 2, 8] 3) 1 = Inr marking_cat
   \<and> block_calls (fst (forward_orig toy_layers marking_flux toy_img toy_img_ids toy_txt
       toy_txt_ids toy_timesteps toy_y (Some toy_guidance)))
     = [Double_blocks 0, Double_blocks 1, Single_blocks 0, Final_layer]"
proof -
  let ?run = "forward_orig toy_layers marking_flux toy_img toy_img_ids toy_txt toy_txt_ids
       toy_timesteps toy_y (Some toy_guidance)"
  note claim = forward_orig_block_order [of toy_layers marking_flux toy_img toy_img_ids toy_txt
      toy_txt_ids toy_timesteps toy_y "Some toy_guidance"]
  have steps: "ndim toy_img = 3 \<and> ndim toy_txt = 3
      \<and> img_in marking_flux toy_img = Some (full [1, 2, 8] 0)
      \<and> conditioning_vector toy_layers marking_flux toy_timesteps toy_y (Some toy_guidance)
          = Some (full [1, 8] 7)
      \<and> txt_in marking_flux toy_txt = Some (full [1, 3, 8] 0)
      \<and> torch_cat toy_txt_ids toy_img_ids 1 = Inr (full [1, 5, 3] 0)
      \<and> pe_embedder marking_flux (full [1, 5, 3] 0) = Some (full [1, 5, 3] 0)
      \<and> double_stack (double_blocks marking_flux) (full [1, 8] 7) (full [1, 5, 3] 0)
          (full [1, 2, 8] 0, full [1, 3, 8] 0) = Some (full [1, 2, 8] 3, full [1, 3, 8] 30)
      \<and> torch_cat (full [1, 3, 8] (30::real)) (full [1, 2, 8] 3) 1 = Inr marking_cat
      \<and> single_stack (single_blocks marking_flux) (full [1, 8] 7) (full [1, 5, 3] 0) marking_cat
          = Some (shift 100 marking_cat)
      \<and> slice_from1 (shift 100 marking_cat) (shape (full [1, 3, 8] (30::real)) ! 1)
          = Inr (full [1, 2, 8] 103)
      \<and> final_layer marking_flux (full [1, 2, 8] 103) (full [1, 8] 7)
          = Some (full [1, 2, 4] 103)"
    by (intro conjI marking_pipeline)
  from claim [THEN conjunct2, THEN conjunct2, THEN conjunct2, rule_format, OF steps]
  have ret: "snd ?run = Inr (full [1, 2, 4] 103)"
    and events: "block_events (fst ?run)
      = double_events (full [1, 8] 7) (full [1, 5, 3] 0)
          (double_inputs (double_blocks marking_flux) (full [1, 8] 7) (full [1, 5, 3] 0)
            (full [1, 2, 8] 0, full [1, 3, 8] 0))
        @ single_events (full [1, 8] 7) (full [1, 5, 3] 0)
          (single_inputs (single_blocks marking_flux) (full [1, 8] 7) (full [1, 5, 3] 0)
            marking_cat)
        @ [Call Final_layer [full [1, 2, 8] 103, full [1, 8] 7]]"
    by simp_all
  have len: "map Double_blocks [0..<length (double_blocks marking_flux)]
      @ map Single_blocks [0..<length (single_blocks marking_flux)] @ [Final_layer]
      = [Double_blocks 0, Double_blocks 1, Single_blocks 0, Final_layer]"
    by (simp add: marking_flux_def upt_conv_Cons)
  from claim [THEN conjunct2, THEN conjunct2, THEN conjunct1, rule_format, OF ret]
  have calls: "block_calls (fst ?run)
      = [Double_blocks 0, Double_blocks 1, Single_blocks 0, Final_layer]"
    unfolding len by simp
  have "block_events (fst ?run)
     = [Call (Double_blocks 0) [full [1, 2, 8] 0, full [1, 3, 8] 0, full [1, 8] 7, full [1, 5, 3] 0],
        Call (Double_blocks 1) [full [1, 2, 8] 1, full [1, 3, 8] 10, full [1, 8] 7, full [1, 5, 3] 0],
        Call (Single_blocks 0) [marking_cat, full [1, 8] 7, full [1, 5, 3] 0],
        Call Final_layer [full [1, 2, 8] 103, full [1, 8] 7]]"
    unfolding events marking_inputs by (simp add: double_events_def single_events_def)
  then show ?thesis using ret calls marking_cat_eq by blast
qed

text \<open>
  C6. When the sub-layers keep the token dimensions (\<open>shape_contract\<close>) and
  \<^verbatim>\<open>forward_orig\<close> returns, the result has as many tokens (dimension 1) as \<open>img\<close>,
  whatever the length of \<open>txt\<close>. The streams \<open>(img2, txt2)\<close> that the double-stream
  stack returns for the projected \<open>img\<close> and \<open>txt\<close> are concatenated with the tokens of
  \<open>txt2\<close> first and those of \<open>img2\<close> after them; the last call of the run is the final
  layer on the slice of the single-stream output that starts after the tokens of
  \<open>txt2\<close>, and that slice has the tokens of \<open>img\<close>; the result is what this call returns.
\<close>

theorem forward_orig_output_tokens:
  assumes "shape_contract m"
    and "snd (forward_orig L m img img_ids txt txt_ids timesteps y guidance) = Inr out"
  shows "shape out ! 1 = shape img ! 1
    \<and> (\<exists>img1 vec txt1 ids pe img2 txt2 x1 x2 x3.
              img_in m img = Some img1
            \<and> conditioning_vector L m timesteps y guidance = Some vec
            \<and> txt_in m txt = Some txt1
            \<and> torch_cat txt_ids img_ids 1 = Inr ids
            \<and> pe_embedder m ids = Some pe
            \<and> double_stack (double_blocks m) vec pe (img1, txt1) = Some (img2, txt2)
            \<and> torch_cat txt2 img2 1 = Inr x1
            \<and> single_stack (single_blocks m) vec pe x1 = Some x2
            \<and> slice_from1 x2 (shape txt2 ! 1) = Inr x3
            \<and> final_layer m x3 vec = Some out
        \<and> last (fst (forward_orig L m img img_ids txt txt_ids timesteps y guidance))
            = Call Final_layer [x3, vec]
        \<and> shape img2 ! 1 = shape img ! 1
        \<and> shape x1 ! 1 = shape txt2 ! 1 + shape img ! 1
        \<and> shape x2 ! 1 = shape txt2 ! 1 + shape img ! 1
        \<and> shape x3 ! 1 = shape img ! 1
        \<and> (\<forall>idx. list_all2 (<) idx (shape txt2) \<longrightarrow> item x1 idx = item txt2 idx)
        \<and> (\<forall>idx. list_all2 (<) idx (shape img2) \<longrightarrow>
              item x1 (idx[1 := shape txt2 ! 1 + idx ! 1]) = item img2 idx)
        \<and> (\<forall>idx. list_all2 (<) idx (shape x3) \<longrightarrow>
              item x3 idx = item x2 (idx[1 := idx ! 1 + shape txt2 ! 1])))"
proof -
  from forward_orig_tokens [OF assms] show ?thesis by blast
qed

theorem forward_orig_output_tokens_witness:
  "shape_contract marking_flux
   \<and> snd (forward_orig toy_layers marking_flux toy_img toy_img_ids toy_txt toy_txt_ids
       toy_timesteps toy_y (Some toy_guidance)) = Inr (full [1, 2, 4] 103)
   \<and> shape (full [1, 2, 4] (103::real)) ! 1 = shape toy_img ! 1
   \<and> shape toy_img ! 1 = 2 \<and> shape toy_txt ! 1 = 3
   \<and> last (fst (forward_orig toy_layers marking_flux toy_img toy_img_ids toy_txt toy_txt_ids
       toy_timesteps toy_y (Some toy_guidance)))
       = Call Final_layer [full [1, 2, 8] 103, full [1, 8] 7]"
proof -
  let ?run = "forward_orig toy_layers marking_flux toy_img toy_img_ids toy_txt toy_txt_ids
       toy_timesteps toy_y (Some toy_guidance)"
  have ret: "snd ?run = Inr (full [1, 2, 4] 103)"
    by (rule forward_orig_block_events(1) [OF marking_pipeline])
  from forward_orig_output_tokens [OF marking_shape_contract ret]
  obtain img1 vec txt1 ids pe img2 txt2 x1 x2 x3 where
    tokens: "shape (full [1, 2, 4] (103::real)) ! 1 = shape toy_img ! 1"
    and p: "img_in marking_flux toy_img = Some img1"
      "conditioning_vector toy_layers marking_flux toy_timesteps toy_y (Some toy_guidance)
         = Some vec"
      "txt_in marking_flux toy_txt = Some txt1"
      "torch_cat toy_txt_ids toy_img_ids 1 = Inr ids"
      "pe_embedder marking_flux ids = Some pe"
      "double_stack (double_blocks marking_flux) vec pe (img1, txt1) = Some (img2, txt2)"
      "torch_cat txt2 img2 1 = Inr x1"
      "single_stack (single_blocks marking_flux) vec pe x1 = Some x2"
      "slice_from1 x2 (shape txt2 ! 1) = Inr x3"
    and final: "last (fst ?run) = Call Final_layer [x3, vec]"
    by blast
  note q = marking_pipeline
  have 1: "img1 = full [1, 2, 8] 0" "vec = full [1, 8] 7" "txt1 = full [1, 3, 8] 0"
    "ids = full [1, 5, 3] 0"
    using p(1-4) q(3-6) by simp_all
  have 2: "pe = full [1, 5, 3] 0" using p(5) q(7) 1 by simp
  have 3: "img2 = full [1, 2, 8] 3" "txt2 = full [1, 3, 8] 30" using p(6) q(8) 1 2 by simp_all
  have 4: "x1 = marking_cat" using p(7) q(9) 3 by simp
  have 5: "x2 = shift 100 marking_cat" using p(8) q(10) 1 2 4 by simp
  have 6: "x3 = full [1, 2, 8] 103" using p(9) q(11) 3 5 by simp
  have "last (fst ?run) = Call Final_layer [full [1, 2, 8] 103, full [1, 8] 7]"
    using final 1 6 by simp
  then show ?thesis
    using marking_shape_contract ret tokens by (simp add: toy_txt_def toy_img_def)
qed

section \<open>Patches\<close>

declare unravel.simps [simp del] ravel.simps [simp del]

lemma data_permute:
  "k < numel (map (\<lambda>d. shape t ! d) dims) \<Longrightarrow>
     data (permute dims t) ! k
       = item t (map (\<lambda>a. unravel (map (\<lambda>d. shape t ! d) dims) k ! index_of dims a)
           [0..<length dims])"
  by (simp add: permute_def data_tabulate)

lemma shape_permute [simp]: "shape (permute dims t) = map (\<lambda>d. shape t ! d) dims"
  by (simp add: permute_def)

lemma valid_permute [simp]: "valid_tensor (permute dims t)"
  by (simp add: permute_def)

lemma upt_6: "[0..<6] = [0, 1, 2, 3, 4, 5]"
  by (simp add: upt_rec)

lemma upt_4: "[0..<4] = [0, 1, 2, 3]"
  by (simp add: upt_rec)

lemma list_all2_6:
  assumes "list_all2 (<) idx [a, b, c, d, e, f]"
  obtains i0 i1 i2 i3 i4 i5 where "idx = [i0, i1, i2, i3, i4, i5]"
    "i0 < a" "i1 < b" "i2 < c" "i3 < d" "i4 < e" "i5 < (f::nat)"
  using assms by (auto simp: list_all2_Cons2)

lemma patch_offset_roundtrip:
  assumes k: "k < numel [b, c, h, 2, w, 2]"
  shows "ravel [b, h, w, c, 2, 2]
           (map (\<lambda>a. unravel [b, c, h, 2, w, 2] k ! index_of [0, 3, 1, 4, 2, 5] a) [0..<6])
         < numel [b, h, w, c, 2, 2]
    \<and> ravel [b, c, h, 2, w, 2]
         (map (\<lambda>a. unravel [b, h, w, c, 2, 2]
             (ravel [b, h, w, c, 2, 2]
               (map (\<lambda>a. unravel [b, c, h, 2, w, 2] k ! index_of [0, 3, 1, 4, 2, 5] a) [0..<6]))
             ! index_of [0, 2, 4, 1, 3, 5] a) [0..<6]) = k"
proof -
  from unravel_in_range [OF k] obtain i0 i1 i2 i3 i4 i5 where
    idx: "unravel [b, c, h, 2, w, 2] k = [i0, i1, i2, i3, i4, i5]"
    and bounds: "i0 < b" "i1 < c" "i2 < h" "i3 < 2" "i4 < w" "i5 < 2"
    by (rule list_all2_6)
  have p2: "map (\<lambda>a. unravel [b, c, h, 2, w, 2] k ! index_of [0, 3, 1, 4, 2, 5] a) [0..<6]
      = [i0, i2, i4, i1, i3, i5]"
    by (simp add: idx upt_6)
  have r2: "list_all2 (<) [i0, i2, i4, i1, i3, i5] [b, h, w, c, 2, 2]"
    using bounds by simp
  have p1: "map (\<lambda>a. [i0, i2, i4, i1, i3, i5] ! index_of [0, 2, 4, 1, 3, 5] a) [0..<6]
      = [i0, i1, i2, i3, i4, i5]"
    by (simp add: upt_6)
  have "ravel [b, c, h, 2, w, 2] [i0, i1, i2, i3, i4, i5] = k"
    using ravel_unravel [OF k] by (simp only: idx)
  then show ?thesis
    unfolding p2 unravel_ravel [OF r2] p1 using ravel_less [OF r2] by simp
qed

lemma rearrange_in_Inr:
  assumes "shape x = [b, c, h, w]" "even h" "even w"
  shows "rearrange_in x = Inr (reshape [b, (h div 2) * (w div 2), c * 2 * 2]
           (permute [0, 2, 4, 1, 3, 5] (reshape [b, c, h div 2, 2, w div 2, 2] x)))"
  using assms by (simp add: rearrange_in_def Let_def even_iff_mod_2_eq_zero)

lemma rearrange_out_Inr:
  assumes "shape t = [b, h * w, cpp]" "cpp mod 4 = 0"
  shows "rearrange_out t h w = Inr (reshape [b, cpp div 4, h * 2, w * 2]
           (permute [0, 3, 1, 4, 2, 5] (reshape [b, h, w, cpp div 4, 2, 2] t)))"
  using assms by (simp add: rearrange_out_def Let_def)

lemma patches_roundtrip:
  assumes valid: "valid_tensor x" and sh: "shape x = [b, c, h * 2, w * 2]"
  shows "reshape [b, c, h * 2, w * 2]
           (permute [0, 3, 1, 4, 2, 5] (reshape [b, h, w, c, 2, 2]
             (reshape [b, h * w, c * 2 * 2]
               (permute [0, 2, 4, 1, 3, 5] (reshape [b, c, h, 2, w, 2] x))))) = x"
    (is "?r = x")
proof -
  let ?t1 = "reshape [b, c, h, 2, w, 2] x"
  let ?t2 = "permute [0, 2, 4, 1, 3, 5] ?t1"
  let ?u1 = "reshape [b, h, w, c, 2, 2] (reshape [b, h * w, c * 2 * 2] ?t2)"
  let ?u2 = "permute [0, 3, 1, 4, 2, 5] ?u1"
  have n: "length (data x) = numel [b, c, h, 2, w, 2]"
    using valid sh by (simp add: valid_tensor_def)
  have "data ?u2 = data x"
  proof (rule nth_equalityI)
    show "length (data ?u2) = length (data x)"
      using n by (simp add: permute_def tabulate_def)
  next
    fix k assume "k < length (data ?u2)"
    then have k: "k < numel [b, c, h, 2, w, 2]"
      by (simp add: permute_def tabulate_def)
    note rt = patch_offset_roundtrip [OF k]
    have "data ?u2 ! k
        = item ?u1 (map (\<lambda>a. unravel [b, c, h, 2, w, 2] k ! index_of [0, 3, 1, 4, 2, 5] a) [0..<6])"
      using k by (subst data_permute) (simp_all add: upt_6)
    also have "\<dots> = data ?t2 ! ravel [b, h, w, c, 2, 2]
        (map (\<lambda>a. unravel [b, c, h, 2, w, 2] k ! index_of [0, 3, 1, 4, 2, 5] a) [0..<6])"
      by (simp add: item_def)
    also have "\<dots> = item ?t1 (map (\<lambda>a. unravel [b, h, w, c, 2, 2]
             (ravel [b, h, w, c, 2, 2]
               (map (\<lambda>a. unravel [b, c, h, 2, w, 2] k ! index_of [0, 3, 1, 4, 2, 5] a) [0..<6]))
             ! index_of [0, 2, 4, 1, 3, 5] a) [0..<6])"
      using rt by (subst data_permute) (simp_all add: upt_6)
    also have "\<dots> = data x ! k"
      using rt by (simp add: item_def)
    finally show "data ?u2 ! k = data x ! k" .
  qed
  then show ?thesis using sh by (simp add: reshape_def)
qed

text \<open>
  C2. For a tensor \<open>x\<close> of shape \<open>(b, c, h, w)\<close> with \<open>h\<close> and \<open>w\<close> even, the
  rearrangement into patches at the start of \<^verbatim>\<open>forward\<close> returns a tensor of shape
  \<open>(b, (h/2) (w/2), 4 c)\<close>, and the rearrangement at the end of \<^verbatim>\<open>forward\<close>, applied
  to it with \<open>h/2\<close> and \<open>w/2\<close>, returns \<open>x\<close>.
\<close>

theorem rearrange_roundtrip:
  assumes "valid_tensor x" and "shape x = [b, c, h, w]" and "even h" and "even w"
  shows "\<exists>img. rearrange_in x = Inr img
     \<and> shape img = [b, (h div 2) * (w div 2), c * 4]
     \<and> rearrange_out img (h div 2) (w div 2) = Inr x"
proof -
  let ?img = "reshape [b, (h div 2) * (w div 2), c * 2 * 2]
           (permute [0, 2, 4, 1, 3, 5] (reshape [b, c, h div 2, 2, w div 2, 2] x))"
  have hw: "h div 2 * 2 = h" "w div 2 * 2 = w" using assms(3,4) by simp_all
  have a: "rearrange_in x = Inr ?img"
    using assms(2-4) by (rule rearrange_in_Inr)
  have sh: "shape ?img = [b, (h div 2) * (w div 2), c * 4]" by simp
  have "rearrange_out ?img (h div 2) (w div 2)
      = Inr (reshape [b, c * 4 div 4, h div 2 * 2, w div 2 * 2]
           (permute [0, 3, 1, 4, 2, 5] (reshape [b, h div 2, w div 2, c * 4 div 4, 2, 2] ?img)))"
    by (rule rearrange_out_Inr) (simp_all add: sh)
  also have "\<dots> = Inr x"
    using patches_roundtrip [of x b c "h div 2" "w div 2"] assms(1,2) hw by simp
  finally show ?thesis using a sh by blast
qed

theorem rearrange_roundtrip_witness:
  "rearrange_in toy_x = Inr \<lparr>shape = [1, 1, 4], data = [1, 2, 3, 4]\<rparr>
   \<and> rearrange_out \<lparr>shape = [1, 1, 4], data = [1, 2, 3, 4::real]\<rparr> 1 1 = Inr toy_x"
proof -
  have v: "valid_tensor toy_x" "shape toy_x = [1, 1, 2, 2]" "even (2::nat)"
    by (simp_all add: toy_x_def valid_tensor_def)
  have img: "rearrange_in toy_x = Inr \<lparr>shape = [1, 1, 4], data = [1, 2, 3, 4]\<rparr>"
    by (simp add: rearrange_in_def toy_x_def permute_def tabulate_def reshape_def item_def
        upt_4 upt_6 unravel.simps ravel.simps)
  from rearrange_roundtrip [OF v(1) v(2) v(3) v(3)] img show ?thesis by auto
qed

section \<open>Positional ids\<close>

lemma linspace_data:
  "torch_linspace N start stop n = \<lparr>shape = [n], data = map (linspace_at N start stop n) [0..<n]\<rparr>"
  by (simp add: torch_linspace_def)

lemma select_zeros:
  "k < 3 \<Longrightarrow> select_last (torch_zeros [h, w, 3]) k = Inr (full [h, w] 0)"
proof -
  assume k: "k < 3"
  have "tabulate [h, w] (\<lambda>idx. item (full [h, w, 3] (0::'a::zero)) (idx @ [k])) = full [h, w] 0"
  proof (rule tabulate_const)
    fix idx assume "list_all2 (<) idx [h, w]"
    then obtain i j where "idx = [i, j]" "i < h" "j < w" by (rule list_all2_2)
    then show "item (full [h, w, 3] (0::'a)) (idx @ [k]) = 0"
      using k by (simp add: item_full)
  qed
  then show ?thesis using k by (simp add: select_last_def torch_zeros_def)
qed

lemma add_rows:
  "torch_add (full [h, w] 0) (unsqueeze 1 \<lparr>shape = [h], data = map f [0..<h]\<rparr>)
     = Inr (tabulate [h, w] (\<lambda>idx. 0 + f (idx ! 0) :: 'a::{zero,plus}))"
proof -
  let ?col = "unsqueeze 1 \<lparr>shape = [h], data = map f [0..<h]\<rparr> :: 'a tensor"
  have sh: "shape ?col = [h, 1]" by (simp add: unsqueeze_def)
  have bs: "broadcast_shapes [h, w] [h, 1] = Some [h, w]"
    by (simp add: broadcast_shapes_def)
  have "tabulate [h, w] (\<lambda>idx. item (full [h, w] 0) (bidx [h, w] idx) + item ?col (bidx [h, 1] idx))
      = tabulate [h, w] (\<lambda>idx. 0 + f (idx ! 0) :: 'a)"
  proof (rule tabulate_cong)
    fix idx assume r: "list_all2 (<) idx [h, w]"
    then obtain i j where idx: "idx = [i, j]" and b: "i < h" "j < w" by (rule list_all2_2)
    have "item (full [h, w] (0::'a)) (bidx [h, w] idx) = 0"
      using r by (simp add: bidx_same item_full)
    moreover have "bidx [h, 1] idx = [i, 0]"
      using b by (auto simp: bidx_def idx)
    moreover have "item ?col [i, 0] = f i"
      using b by (simp add: item_def sh ravel.simps unsqueeze_def)
    ultimately show "item (full [h, w] 0) (bidx [h, w] idx) + item ?col (bidx [h, 1] idx)
        = (0 + f (idx ! 0) :: 'a)"
      by (simp add: idx)
  qed
  then show ?thesis by (simp only: torch_add_def sh bs shape_full option.case)
qed

lemma add_cols:
  "torch_add (full [h, w] 0) (unsqueeze 0 \<lparr>shape = [w], data = map f [0..<w]\<rparr>)
     = Inr (tabulate [h, w] (\<lambda>idx. 0 + f (idx ! 1) :: 'a::{zero,plus}))"
proof -
  let ?row = "unsqueeze 0 \<lparr>shape = [w], data = map f [0..<w]\<rparr> :: 'a tensor"
  have sh: "shape ?row = [1, w]" by (simp add: unsqueeze_def)
  have bs: "broadcast_shapes [h, w] [1, w] = Some [h, w]"
    by (simp add: broadcast_shapes_def)
  have "tabulate [h, w] (\<lambda>idx. item (full [h, w] 0) (bidx [h, w] idx) + item ?row (bidx [1, w] idx))
      = tabulate [h, w] (\<lambda>idx. 0 + f (idx ! 1) :: 'a)"
  proof (rule tabulate_cong)
    fix idx assume r: "list_all2 (<) idx [h, w]"
    then obtain i j where idx: "idx = [i, j]" and b: "i < h" "j < w" by (rule list_all2_2)
    have "item (full [h, w] (0::'a)) (bidx [h, w] idx) = 0"
      using r by (simp add: bidx_same item_full)
    moreover have "bidx [1, w] idx = [0, j]"
      using b by (auto simp: bidx_def idx)
    moreover have "item ?row [0, j] = f j"
      using b by (simp add: item_def sh ravel.simps unsqueeze_def)
    ultimately show "item (full [h, w] 0) (bidx [h, w] idx) + item ?row (bidx [1, w] idx)
        = (0 + f (idx ! 1) :: 'a)"
      by (simp add: idx)
  qed
  then show ?thesis by (simp only: torch_add_def sh bs shape_full option.case)
qed

lemma setitem_rows:
  "setitem_last (torch_zeros [h, w, 3]) 1 (tabulate [h, w] (\<lambda>idx. r (idx ! 0)))
     = Inr (tabulate [h, w, 3]
         (\<lambda>idx. if idx ! 2 = 1 then r (idx ! 0) else (0::'a::zero)))"
proof -
  have "tabulate [h, w, 3]
       (\<lambda>idx. if last idx = 1
          then item (tabulate [h, w] (\<lambda>idx. r (idx ! 0) :: 'a)) (bidx [h, w] (butlast idx))
          else item (full [h, w, 3] 0) idx)
      = tabulate [h, w, 3] (\<lambda>idx. if idx ! 2 = 1 then r (idx ! 0) else 0)"
  proof (rule tabulate_cong)
    fix idx assume r: "list_all2 (<) idx [h, w, 3]"
    then obtain i j k where idx: "idx = [i, j, k]" and b: "i < h" "j < w" "k < 3"
      by (rule list_all2_3)
    have ij: "list_all2 (<) [i, j] [h, w]" using b by simp
    show "(if last idx = 1
          then item (tabulate [h, w] (\<lambda>idx. r (idx ! 0) :: 'a)) (bidx [h, w] (butlast idx))
          else item (full [h, w, 3] 0) idx)
        = (if idx ! 2 = 1 then r (idx ! 0) else 0)"
      using r by (simp add: idx bidx_same [OF ij] item_tabulate [OF ij] item_full)
  qed
  then show ?thesis by (simp add: setitem_last_def torch_zeros_def cong: if_cong)
qed

lemma select_rows:
  "select_last (tabulate [h, w, 3]
       (\<lambda>idx. if idx ! 2 = 1 then r (idx ! 0) else (0::'a::zero))) 2
     = Inr (full [h, w] 0)"
proof -
  let ?t = "tabulate [h, w, 3] (\<lambda>idx. if idx ! 2 = 1 then r (idx ! 0) else (0::'a))"
  have "tabulate [h, w] (\<lambda>idx. item ?t (idx @ [2])) = full [h, w] 0"
  proof (rule tabulate_const)
    fix idx assume "list_all2 (<) idx [h, w]"
    then obtain i j where idx: "idx = [i, j]" and b: "i < h" "j < w" by (rule list_all2_2)
    have "list_all2 (<) [i, j, 2] [h, w, 3]" using b by simp
    then show "item ?t (idx @ [2]) = 0"
      by (simp add: idx item_tabulate)
  qed
  then show ?thesis by (simp add: select_last_def)
qed

lemma setitem_cols:
  "setitem_last (tabulate [h, w, 3]
       (\<lambda>idx. if idx ! 2 = 1 then r (idx ! 0) else (0::'a::zero))) 2
       (tabulate [h, w] (\<lambda>idx. c (idx ! 1)))
     = Inr (tabulate [h, w, 3] (\<lambda>idx. [0, r (idx ! 0), c (idx ! 1)] ! (idx ! 2)))"
proof -
  let ?t = "tabulate [h, w, 3] (\<lambda>idx. if idx ! 2 = 1 then r (idx ! 0) else (0::'a))"
  have "tabulate [h, w, 3]
       (\<lambda>idx. if last idx = 2
          then item (tabulate [h, w] (\<lambda>idx. c (idx ! 1) :: 'a)) (bidx [h, w] (butlast idx))
          else item ?t idx)
      = tabulate [h, w, 3] (\<lambda>idx. [0, r (idx ! 0), c (idx ! 1)] ! (idx ! 2))"
  proof (rule tabulate_cong)
    fix idx assume r: "list_all2 (<) idx [h, w, 3]"
    then obtain i j k where idx: "idx = [i, j, k]" and b: "i < h" "j < w" "k < 3"
      by (rule list_all2_3)
    have ij: "list_all2 (<) [i, j] [h, w]" using b by simp
    have ijk: "list_all2 (<) [i, j, k] [h, w, 3]" using b by simp
    have old: "item ?t idx = (if k = 1 then r i else 0)"
      by (simp only: idx item_tabulate [OF ijk]) simp
    have new: "item (tabulate [h, w] (\<lambda>idx. c (idx ! 1) :: 'a)) (bidx [h, w] (butlast idx))
        = c j"
      by (simp add: idx bidx_same [OF ij] item_tabulate [OF ij])
    from b(3) consider "k = 0" | "k = 1" | "k = 2" by linarith
    then show "(if last idx = 2
          then item (tabulate [h, w] (\<lambda>idx. c (idx ! 1) :: 'a)) (bidx [h, w] (butlast idx))
          else item ?t idx)
        = [0, r (idx ! 0), c (idx ! 1)] ! (idx ! 2)"
      unfolding old new by cases (simp_all add: idx)
  qed
  then show ?thesis by (simp add: setitem_last_def cong: if_cong)
qed

lemma make_img_ids_eq:
  "make_img_ids N bs h_len w_len = Inr (patch_ids N bs h_len w_len :: 'a::{zero,plus} tensor)"
proof -
  let ?r = "\<lambda>i. 0 + linspace_at N 0 (int h_len - 1) h_len i :: 'a"
  let ?c = "\<lambda>j. 0 + linspace_at N 0 (int w_len - 1) w_len j :: 'a"
  let ?t = "tabulate [h_len, w_len, 3] (\<lambda>idx. [0, ?r (idx ! 0), ?c (idx ! 1)] ! (idx ! 2))"
  have "tabulate [bs, h_len, w_len, 3] (\<lambda>idx. item ?t (tl idx))
      = tabulate [bs, h_len, w_len, 3] (\<lambda>idx. [0, ?r (idx ! 1), ?c (idx ! 2)] ! (idx ! 3))"
  proof (rule tabulate_cong)
    fix idx assume "list_all2 (<) idx [bs, h_len, w_len, 3]"
    then obtain b i j k where idx: "idx = [b, i, j, k]"
      and r: "b < bs" "i < h_len" "j < w_len" "k < 3"
      by (rule list_all2_4)
    have "list_all2 (<) [i, j, k] [h_len, w_len, 3]" using r by simp
    then show "item ?t (tl idx) = [0, ?r (idx ! 1), ?c (idx ! 2)] ! (idx ! 3)"
      by (simp add: idx item_tabulate)
  qed
  then have rep: "repeat_ids ?t bs = Inr (patch_ids N bs h_len w_len)"
    by (simp add: repeat_ids_def patch_ids_def)
  show ?thesis
    unfolding make_img_ids_def Let_def
    by (simp only: select_zeros linspace_data add_rows setitem_rows [of _ _ ?r]
        select_rows [of _ _ ?r] add_cols setitem_cols [of _ _ ?r ?c] rep bind_e_Inr_left)
qed



lemma shape_patch_ids [simp]: "shape (patch_ids N bs h w) = [bs, h * w, 3]"
  by (simp add: patch_ids_def)


section \<open>Runs of \<^verbatim>\<open>forward\<close>\<close>




lemma forward_Inr:
  fixes x :: "'a::{zero,plus} tensor"
  assumes "shape x = [bs, c, h, w]"
  shows "snd (forward N L m x timestep context y guidance) = Inr out
     \<longleftrightarrow> (\<exists>img r. rearrange_in x = Inr img \<and> 1 < ndim context
          \<and> snd (forward_orig L m img (patch_ids N bs (h div 2) (w div 2)) context
               (torch_zeros [bs, shape context ! 1, 3]) timestep y guidance) = Inr r
          \<and> rearrange_out r (h div 2) (w div 2) = Inr out)"
  using assms
  by (auto simp: forward_def make_img_ids_eq Let_def)

lemma rearrange_in_shape:
  assumes "rearrange_in x = Inr img" and "shape x = [b, c, h, w]"
  shows "even h \<and> even w \<and> shape img = [b, (h div 2) * (w div 2), c * 4]"
  using assms
  by (auto simp: rearrange_in_def Let_def even_iff_mod_2_eq_zero split: if_splits)

lemma rearrange_out_shape:
  assumes "rearrange_out r h w = Inr out" and "shape r = [b, n, cpp]"
  shows "shape out = [b, cpp div 4, h * 2, w * 2]"
  using assms by (auto simp: rearrange_out_def Let_def split: if_splits)

lemma shape_3: "length xs = 3 \<Longrightarrow> xs = [xs ! 0, xs ! 1, last xs]"
proof -
  assume "length xs = 3"
  then obtain a b c where "xs = [a, b, c]"
    by (auto simp: length_Suc_conv numeral_3_eq_3)
  then show ?thesis by simp
qed

section \<open>Runs of \<^verbatim>\<open>forward\<close> on the small model\<close>



lemma toy_conditioning_vector:
  "conditioning_vector toy_layers toy_flux toy_timesteps toy_y (Some toy_guidance)
     = Some (full [1, 8] 7)"
  using conditioning_Inr [of toy_layers toy_flux toy_timesteps toy_y "Some toy_guidance"
      "full [1, 8] 7"]
  by (simp add: toy_conditioning)

lemma conditioning_vector_img_in [simp]:
  "conditioning_vector L (m\<lparr>img_in := f\<rparr>) timesteps y guidance
     = conditioning_vector L m timesteps y guidance"
  by (simp add: conditioning_vector_def cong: if_cong)

lemma toy_forward_orig_returns:
  assumes f: "f IMG = Some (full [1, T, 8] 0)" and nd: "ndim IMG = 3"
    and ids: "shape IDS = [1, T, 3]"
  shows "snd (forward_orig toy_layers (toy_flux\<lparr>img_in := f\<rparr>) IMG IDS toy_txt
       (torch_zeros [1, 3, 3]) toy_timesteps toy_y (Some toy_guidance)) = Inr (full [1, T, 4] 0)"
proof -
  let ?m = "toy_flux\<lparr>img_in := f\<rparr>"
  let ?vec = "full [1, 8] 7 :: real tensor"
  obtain pe where pe: "torch_cat (torch_zeros [1, 3, 3]) IDS 1 = Inr pe"
    using ids by (simp add: torch_cat_def torch_zeros_def ndim_def)
  have 1: "img_in ?m IMG = Some (full [1, T, 8] 0)" using f by simp
  have 2: "conditioning_vector toy_layers ?m toy_timesteps toy_y (Some toy_guidance) = Some ?vec"
    by (simp add: toy_conditioning_vector)
  have 3: "txt_in ?m toy_txt = Some (full [1, 3, 8] 0)"
    by (simp add: toy_flux_def toy_txt_def toy_projection_full)
  have 4: "pe_embedder ?m pe = Some pe" by (simp add: toy_flux_def)
  have 5: "double_stack (double_blocks ?m) ?vec pe (full [1, T, 8] 0, full [1, 3, 8] 0)
      = Some (full [1, T, 8] 0, full [1, 3, 8] 0)"
    by (simp add: toy_flux_def)
  have 6: "torch_cat (full [1, 3, 8] (0::real)) (full [1, T, 8] 0) 1 = Inr (full [1, 3 + T, 8] 0)"
    using torch_cat_full3 [of 1 3 8 "0::real" T] by simp
  have 7: "single_stack (single_blocks ?m) ?vec pe (full [1, 3 + T, 8] 0)
      = Some (full [1, 3 + T, 8] 0)"
    by (simp add: toy_flux_def)
  have 8: "slice_from1 (full [1, 3 + T, 8] (0::real)) (shape (full [1, 3, 8] (0::real)) ! 1)
      = Inr (full [1, T, 8] 0)"
    using slice_from1_full3 [of 1 "3 + T" 8 "0::real" 3] by simp
  have 9: "final_layer ?m (full [1, T, 8] 0) ?vec = Some (full [1, T, 4] 0)"
    by (simp add: toy_flux_def)
  have 10: "ndim toy_txt = 3" "1 < ndim (full [1, 3, 8] (0::real))"
    by (simp_all add: toy_txt_def)
  show ?thesis
    unfolding forward_orig_Inr using nd 1 2 3 pe 4 5 6 7 8 9 10 by blast
qed

lemma toy_last_layer_width: "last_layer_width toy_layers"
  by (auto simp: last_layer_width_def toy_layers_def split: if_splits)

lemma toy_flux_img_in: "toy_flux\<lparr>img_in := toy_projection 4 8 0\<rparr> = toy_flux"
  by (simp add: toy_flux_def)

lemma toy_forward_returns:
  assumes sh: "shape x = [1, c, h, w]" and ev: "even h" "even w"
    and f: "\<And>IMG. shape IMG = [1, (h div 2) * (w div 2), c * 4]
      \<Longrightarrow> f IMG = Some (full [1, (h div 2) * (w div 2), 8] 0)"
  shows "\<exists>out. snd (forward N toy_layers (toy_flux\<lparr>img_in := f\<rparr>) x toy_timesteps toy_txt toy_y
       (Some toy_guidance)) = Inr out \<and> shape out = [1, 1, h, w]"
proof -
  let ?img = "reshape [1, (h div 2) * (w div 2), c * 2 * 2]
           (permute [0, 2, 4, 1, 3, 5] (reshape [1, c, h div 2, 2, w div 2, 2] x))"
  let ?r = "full [1, (h div 2) * (w div 2), 4] 0 :: real tensor"
  let ?out = "reshape [1, 4 div 4, h div 2 * 2, w div 2 * 2]
           (permute [0, 3, 1, 4, 2, 5] (reshape [1, h div 2, w div 2, 4 div 4, 2, 2] ?r))"
  have img: "rearrange_in x = Inr ?img" using sh ev by (rule rearrange_in_Inr)
  have ctx: "1 < ndim toy_txt" "shape toy_txt ! 1 = 3" by (simp_all add: toy_txt_def)
  have "f ?img = Some (full [1, (h div 2) * (w div 2), 8] 0)" by (rule f) simp
  then have fo: "snd (forward_orig toy_layers (toy_flux\<lparr>img_in := f\<rparr>) ?img
       (patch_ids N 1 (h div 2) (w div 2)) toy_txt (torch_zeros [1, shape toy_txt ! 1, 3])
       toy_timesteps toy_y (Some toy_guidance)) = Inr ?r"
    unfolding ctx(2) by (rule toy_forward_orig_returns) (simp_all add: ndim_def)
  have out: "rearrange_out ?r (h div 2) (w div 2) = Inr ?out"
    by (rule rearrange_out_Inr) simp_all
  have "snd (forward N toy_layers (toy_flux\<lparr>img_in := f\<rparr>) x toy_timesteps toy_txt toy_y
       (Some toy_guidance)) = Inr ?out"
    unfolding forward_Inr [OF sh] using img ctx(1) fo out by blast
  moreover have "shape ?out = [1, 1, h, w]" using ev by simp
  ultimately show ?thesis by blast
qed





section \<open>Claims about \<^verbatim>\<open>forward\<close>\<close>


text \<open>
  C9 (as amended). Let the model be constructed by \<^verbatim>\<open>Flux.__init__\<close>, with sub-layers
  that keep the token dimensions and a final layer of the width its call documents.
  For an input \<open>x\<close> of shape \<open>(bs, c, h, w)\<close> with \<open>4 c = in_channels\<close>, a tensor that
  \<^verbatim>\<open>forward\<close> returns has the shape of \<open>x\<close>.
\<close>

theorem forward_keeps_shape:
  fixes x :: "'a::{zero,plus} tensor"
  assumes init: "flux_init L image_model dt dev ops p = Inr m"
    and width: "last_layer_width L"
    and contract: "shape_contract m"
    and sh: "shape x = [bs, c, h, w]"
    and ch: "in_channels p = int (4 * c)"
    and run: "snd (forward N L m x timestep context y guidance) = Inr out"
  shows "shape out = shape x"
proof -
  from run [unfolded forward_Inr [OF sh]] obtain img r where
    img: "rearrange_in x = Inr img"
    and fo: "snd (forward_orig L m img (patch_ids N bs (h div 2) (w div 2)) context
               (torch_zeros [bs, shape context ! 1, 3]) timestep y guidance) = Inr r"
    and out: "rearrange_out r (h div 2) (w div 2) = Inr out"
    by blast
  from rearrange_in_shape [OF img sh] have ev: "even h" "even w"
    and si: "shape img = [bs, (h div 2) * (w div 2), c * 4]"
    by simp_all
  from forward_orig_shapes [OF contract fo] obtain x3 vec where
    fl: "final_layer m x3 vec = Some r"
    and r: "ndim r = 3" "shape r ! 0 = shape img ! 0" "shape r ! 1 = shape img ! 1"
    by blast
  from flux_init_channels [OF init] obtain ops' where
    "LastLayer L Final_layer (hidden_size p) 1 (in_channels p) dt dev ops' = Some (final_layer m)"
    by blast
  with width fl have "last (shape r) = nat (1 * 1 * in_channels p)"
    unfolding last_layer_width_def by blast
  then have "last (shape r) = 4 * c" using ch by simp
  then have "shape r = [bs, (h div 2) * (w div 2), 4 * c]"
    using shape_3 [of "shape r"] r si by (simp add: ndim_def)
  from rearrange_out_shape [OF out this] have "shape out = [bs, c, h div 2 * 2, w div 2 * 2]"
    by simp
  then show ?thesis using ev sh by simp
qed






theorem forward_keeps_shape_witness:
  "\<exists>out. snd (forward bfloat16_numerics toy_layers toy_flux toy_latent toy_timesteps toy_txt
       toy_y (Some toy_guidance)) = Inr out \<and> shape out = shape toy_latent"
proof -
  have sh: "shape toy_latent = [1, 1, 4, 4]" by (simp add: toy_latent_def)
  have ch: "in_channels toy_params = int (4 * 1)" by (simp add: toy_params_def)
  have "\<exists>out. snd (forward bfloat16_numerics toy_layers (toy_flux\<lparr>img_in := toy_projection 4 8 0\<rparr>) toy_latent
       toy_timesteps toy_txt toy_y (Some toy_guidance)) = Inr out \<and> shape out = [1, 1, 4, 4]"
    using sh by (rule toy_forward_returns) (simp_all add: toy_projection_def)
  then obtain out where run: "snd (forward bfloat16_numerics toy_layers toy_flux toy_latent toy_timesteps toy_txt
       toy_y (Some toy_guidance)) = Inr out"
    by (auto simp only: toy_flux_img_in)
  from forward_keeps_shape [OF toy_init toy_last_layer_width toy_shape_contract sh ch run]
  show ?thesis using run by blast
qed

lemma forward_orig_img_in_raises:
  assumes "ndim img = 3" "ndim txt = 3" "img_in m img = None"
  shows "snd (forward_orig L m img img_ids txt txt_ids timesteps y guidance)
     = Inl (Raised Img_in)"
  using assms by (simp add: forward_orig_def snd_and_then_Inl and_then_Inl)

theorem forward_channels_counterexample:
  "shape toy_x4 = [1, 4, 2, 2] \<and> in_channels (params toy_flux) = 4
   \<and> snd (forward bfloat16_numerics toy_layers toy_flux toy_x4 toy_timesteps toy_txt toy_y (Some toy_guidance))
       = Inl (Raised Img_in)
   \<and> map_sum id shape
       (snd (forward bfloat16_numerics toy_layers (toy_flux\<lparr>img_in := any_width\<rparr>) toy_x4 toy_timesteps toy_txt
          toy_y (Some toy_guidance)))
       = Inr [1, 1, 2, 2]"
proof -
  let ?img = "reshape [1, (2 div 2) * (2 div 2), 4 * 2 * 2]
      (permute [0, 2, 4, 1, 3, 5] (reshape [1, 4, 2 div 2, 2, 2 div 2, 2] toy_x4))"
  have sh: "shape toy_x4 = [1, 4, 2, 2]" by (simp add: toy_x4_def)
  have ch: "in_channels (params toy_flux) = 4" by (simp add: toy_flux_def toy_params_def)
  have img: "rearrange_in toy_x4 = Inr ?img"
    using sh by (rule rearrange_in_Inr) simp_all
  have "img_in toy_flux ?img = None"
    by (simp add: toy_flux_def toy_projection_def)
  then have fo: "snd (forward_orig toy_layers toy_flux ?img (patch_ids bfloat16_numerics 1 (2 div 2) (2 div 2))
      toy_txt (torch_zeros [1, shape toy_txt ! 1, 3]) toy_timesteps toy_y (Some toy_guidance))
      = Inl (Raised Img_in)"
    by (intro forward_orig_img_in_raises) (simp_all add: ndim_def toy_txt_def)
  have raises: "snd (forward bfloat16_numerics toy_layers toy_flux toy_x4 toy_timesteps toy_txt toy_y
      (Some toy_guidance)) = Inl (Raised Img_in)"
    using fo by (simp add: forward_def sh img make_img_ids_eq snd_and_then_Inl Let_def
        toy_txt_def)
  have "\<exists>out. snd (forward bfloat16_numerics toy_layers (toy_flux\<lparr>img_in := any_width\<rparr>) toy_x4
       toy_timesteps toy_txt toy_y (Some toy_guidance)) = Inr out \<and> shape out = [1, 1, 2, 2]"
    using sh by (rule toy_forward_returns) (simp_all add: any_width_def)
  then have "map_sum id shape
       (snd (forward bfloat16_numerics toy_layers (toy_flux\<lparr>img_in := any_width\<rparr>) toy_x4 toy_timesteps toy_txt
          toy_y (Some toy_guidance))) = Inr [1, 1, 2, 2]"
    by auto
  then show ?thesis using sh ch raises by blast
qed

end
